theory Spec2Isabelle
  imports Main "HOL-Library.Sublist" "HOL-Library.Word"
begin

section \<open>The Go standard library, as far as the client uses it\<close>

text \<open>
  A Go string is a sequence of bytes; \<^typ>\<open>string\<close> (a list of 8-bit characters) is
  exactly that.  Non-ASCII text is its UTF-8 encoding, several bytes per code point.
\<close>

subsection \<open>strings.TrimSpace\<close>

text \<open>
  \<^verbatim>\<open>strings.TrimSpace\<close> removes leading and trailing white space as Unicode defines it
  (\<^verbatim>\<open>unicode.IsSpace\<close>).  \<open>spaceRunes\<close> lists the UTF-8 encodings of all such code points:
  tab, line feed, vertical tab, form feed, carriage return, space, U+0085, U+00A0, U+1680,
  U+2000 to U+200A, U+2028, U+2029, U+202F, U+205F and U+3000.  A byte sequence that is not
  valid UTF-8 decodes to U+FFFD, which is not white space, so trimming stops there.
\<close>

definition spaceRunes :: "string list" where
  "spaceRunes =
     [[CHR 0x09], [CHR 0x0A], [CHR 0x0B], [CHR 0x0C], [CHR 0x0D], [CHR 0x20],
      [CHR 0xC2, CHR 0x85], [CHR 0xC2, CHR 0xA0],
      [CHR 0xE1, CHR 0x9A, CHR 0x80],
      [CHR 0xE2, CHR 0x80, CHR 0x80], [CHR 0xE2, CHR 0x80, CHR 0x81],
      [CHR 0xE2, CHR 0x80, CHR 0x82], [CHR 0xE2, CHR 0x80, CHR 0x83],
      [CHR 0xE2, CHR 0x80, CHR 0x84], [CHR 0xE2, CHR 0x80, CHR 0x85],
      [CHR 0xE2, CHR 0x80, CHR 0x86], [CHR 0xE2, CHR 0x80, CHR 0x87],
      [CHR 0xE2, CHR 0x80, CHR 0x88], [CHR 0xE2, CHR 0x80, CHR 0x89],
      [CHR 0xE2, CHR 0x80, CHR 0x8A],
      [CHR 0xE2, CHR 0x80, CHR 0xA8], [CHR 0xE2, CHR 0x80, CHR 0xA9],
      [CHR 0xE2, CHR 0x80, CHR 0xAF],
      [CHR 0xE2, CHR 0x81, CHR 0x9F],
      [CHR 0xE3, CHR 0x80, CHR 0x80]]"

definition leadingSpace :: "string \<Rightarrow> nat" where
  \<comment> \<open>the width in bytes of the white-space rune the string starts with, 0 if there is none\<close>
  "leadingSpace s =
     (case find (\<lambda>r. prefix r s) spaceRunes of None \<Rightarrow> 0 | Some r \<Rightarrow> length r)"

definition trailingSpace :: "string \<Rightarrow> nat" where
  \<comment> \<open>the width in bytes of the white-space rune the string ends with, 0 if there is none\<close>
  "trailingSpace s =
     (case find (\<lambda>r. suffix r s) spaceRunes of None \<Rightarrow> 0 | Some r \<Rightarrow> length r)"

function trimLeft :: "string \<Rightarrow> string" where
  "trimLeft s = (if leadingSpace s = 0 then s else trimLeft (drop (leadingSpace s) s))"
  by pat_completeness auto
termination
proof (relation "measure length")
  show "wf (measure length)" by simp
next
  fix s :: string
  assume nz: "leadingSpace s \<noteq> 0"
  have "leadingSpace [] = 0"
    unfolding leadingSpace_def spaceRunes_def by simp
  with nz have "s \<noteq> []" by auto
  with nz show "(drop (leadingSpace s) s, s) \<in> measure length" by simp
qed

function trimRight :: "string \<Rightarrow> string" where
  "trimRight s =
     (if trailingSpace s = 0 then s else trimRight (take (length s - trailingSpace s) s))"
  by pat_completeness auto
termination
proof (relation "measure length")
  show "wf (measure length)" by simp
next
  fix s :: string
  assume nz: "trailingSpace s \<noteq> 0"
  have "trailingSpace [] = 0"
    unfolding trailingSpace_def spaceRunes_def by simp
  with nz have "s \<noteq> []" by auto
  with nz show "(take (length s - trailingSpace s) s, s) \<in> measure length" by simp
qed

declare trimLeft.simps [simp del] trimRight.simps [simp del]

definition strings_TrimSpace :: "string \<Rightarrow> string" where
  "strings_TrimSpace s = trimRight (trimLeft s)"

subsection \<open>strings.Split, strings.Contains, strings.ReplaceAll\<close>

text \<open>
  \<^verbatim>\<open>strings.Split(s, sep)\<close> for a separator of one byte, the only use the client makes of
  it: cut at every occurrence of the separator; a string without the separator (the empty
  string too) gives the one-element slice holding the string.
\<close>

function strings_Split :: "string \<Rightarrow> char \<Rightarrow> string list" where
  "strings_Split s sep =
     (case dropWhile (\<lambda>c. c \<noteq> sep) s of
        [] \<Rightarrow> [s]
      | _ # rest \<Rightarrow> takeWhile (\<lambda>c. c \<noteq> sep) s # strings_Split rest sep)"
  by pat_completeness auto
termination
proof (relation "measure (\<lambda>(s, sep). length s)")
  show "wf (measure (\<lambda>(s, sep). length s))" by simp
next
  fix s :: string and sep c rest
  assume "dropWhile (\<lambda>c. c \<noteq> sep) s = c # rest"
  then have "length (c # rest) \<le> length s"
    by (metis length_dropWhile_le)
  then show "((rest, sep), (s, sep)) \<in> measure (\<lambda>(s, sep). length s)" by simp
qed

declare strings_Split.simps [simp del]

fun strings_Contains :: "string \<Rightarrow> string \<Rightarrow> bool" where
  \<comment> \<open>\<^verbatim>\<open>strings.Contains(s, substr)\<close>: \<open>substr\<close> occurs in \<open>s\<close> as a run of consecutive bytes\<close>
  "strings_Contains [] sub = (sub = [])"
| "strings_Contains (c # cs) sub = (prefix sub (c # cs) \<or> strings_Contains cs sub)"

definition strings_ReplaceAll :: "string \<Rightarrow> char \<Rightarrow> string \<Rightarrow> string" where
  \<comment> \<open>\<^verbatim>\<open>strings.ReplaceAll(s, old, new)\<close> for \<open>old\<close> of one byte\<close>
  "strings_ReplaceAll s old new = concat (map (\<lambda>c. if c = old then new else [c]) s)"

definition strings_HasSuffix :: "string \<Rightarrow> string \<Rightarrow> bool" where
  "strings_HasSuffix s suf = suffix suf s"

definition asciiToLower :: "string \<Rightarrow> string" where
  \<comment> \<open>what \<^verbatim>\<open>strings.ToLower\<close> computes on ASCII text.  The client's functions take the
      lower-casing function as the parameter \<open>toLower\<close>, so that their theorems hold for Go's
      full Unicode case mapping; this instance serves the concrete runs.\<close>
  "asciiToLower s =
     map (\<lambda>c. if (65::nat) \<le> of_char c \<and> of_char c \<le> (90::nat)
               then char_of (of_char c + (32::nat)) else c) s"

subsection \<open>fmt: decimal numbers\<close>

definition digit :: "nat \<Rightarrow> char" where
  "digit d = char_of (48 + d)"

function showNat :: "nat \<Rightarrow> string" where
  \<comment> \<open>the verb \<^verbatim>\<open>%d\<close> of \<^verbatim>\<open>fmt\<close> on a value that is not negative\<close>
  "showNat n = (if n < 10 then [digit n] else showNat (n div 10) @ [digit (n mod 10)])"
  by pat_completeness auto
termination
  by (relation "measure id") auto

declare showNat.simps [simp del]

subsection \<open>Errors\<close>

text \<open>
  An \<^verbatim>\<open>error\<close> value: its text (\<^verbatim>\<open>err.Error()\<close>), the errors it wraps (what \<^verbatim>\<open>%w\<close> of
  \<^verbatim>\<open>fmt.Errorf\<close> and \<^verbatim>\<open>errors.Join\<close> record and \<^verbatim>\<open>errors.Is\<close> follows), and whether it is a
  \<^verbatim>\<open>net.Error\<close> whose \<^verbatim>\<open>Timeout()\<close> is true.  Go compares error values by identity.
  \<open>PackageVar\<close> is the value of a package-level variable that \<^verbatim>\<open>errors.New\<close> filled once,
  \<^verbatim>\<open>io.EOF\<close> or \<^verbatim>\<open>ErrNotConnected\<close>, known by the variable's name; \<open>Error\<close> is a value made
  while the program runs.  The targets of \<^verbatim>\<open>errors.Is\<close> in this program are package-level
  variables, and a value made at run time is identical to none of them, whatever its
  text.
\<close>

datatype error =
    Error (errText: string) (unwrap: "error list") (netTimeout: bool)
  | PackageVar (varName: string) (errText: string)
where
  "unwrap (PackageVar v t) = []"
| "netTimeout (PackageVar v t) = False"

definition errors_New :: "string \<Rightarrow> error" where
  \<comment> \<open>\<^verbatim>\<open>errors.New\<close>, and \<^verbatim>\<open>fmt.Errorf\<close> without \<^verbatim>\<open>%w\<close>, called while the program runs\<close>
  "errors_New msg = Error msg [] False"

definition Errorf_w :: "string \<Rightarrow> error \<Rightarrow> error" where
  \<comment> \<open>\<^verbatim>\<open>fmt.Errorf("<prefix>%w", err)\<close>\<close>
  "Errorf_w pre err = Error (pre @ errText err) [err] False"

definition Errorf_w_text :: "error \<Rightarrow> string \<Rightarrow> error" where
  \<comment> \<open>\<^verbatim>\<open>fmt.Errorf("%w<rest>", err)\<close>, the rest of the format already printed\<close>
  "Errorf_w_text err rest = Error (errText err @ rest) [err] False"

fun joinWith :: "char \<Rightarrow> string list \<Rightarrow> string" where
  \<comment> \<open>\<^verbatim>\<open>strings.Join(elems, sep)\<close> for a separator of one byte\<close>
  "joinWith sep [] = []"
| "joinWith sep [x] = x"
| "joinWith sep (x # y # ys) = x @ sep # joinWith sep (y # ys)"

definition errors_Join :: "error list \<Rightarrow> error" where
  \<comment> \<open>\<^verbatim>\<open>errors.Join\<close> of errors none of which is nil: the texts, one per line\<close>
  "errors_Join errs = Error (joinWith (CHR 0x0A) (map errText errs)) errs False"

fun errors_Is :: "error \<Rightarrow> error \<Rightarrow> bool" where
  \<comment> \<open>\<^verbatim>\<open>errors.Is(err, target)\<close> for a target that is a package-level variable\<close>
  "errors_Is (PackageVar v t) target = (PackageVar v t = target)"
| "errors_Is (Error t u n) target = list_ex (\<lambda>e. errors_Is e target) u"

definition verb_v :: "error option \<Rightarrow> string" where
  \<comment> \<open>the verb \<^verbatim>\<open>%v\<close> on an error value; a nil error prints as \<^verbatim>\<open><nil>\<close>\<close>
  "verb_v e = (case e of None \<Rightarrow> ''<nil>'' | Some err \<Rightarrow> errText err)"

text \<open>A function that can panic either returns a value or panics.\<close>

datatype panic = SliceBoundsOutOfRange int int

datatype 'a outcome = Returns 'a | Panics panic

definition sliceExpr :: "'a list \<Rightarrow> int \<Rightarrow> int \<Rightarrow> 'a list outcome" where
  \<comment> \<open>the slice expression \<^verbatim>\<open>xs[lo:hi]\<close>.  Go panics unless \<open>0 \<le> lo \<le> hi \<le> cap(xs)\<close>; the
      capacity is at least the length, and the client's only slice expression has
      \<open>hi < len(xs)\<close>, so the length stands for the capacity here.\<close>
  "sliceExpr xs lo hi =
     (if 0 \<le> lo \<and> lo \<le> hi \<and> hi \<le> int (length xs)
      then Returns (take (nat (hi - lo)) (drop (nat lo) xs))
      else Panics (SliceBoundsOutOfRange lo hi))"

section \<open>Package unm: the protocol client\<close>

text \<open>
  The repository holds the package in two editions, \<^verbatim>\<open>src/internal/unm/unm.go\<close> and
  \<^verbatim>\<open>src/unnamed/part_001\<close>, which differ in the language of their messages and in the
  list query, present in the second only.  The definitions follow the second, English,
  edition; the control flow of the functions both editions have is the same line by line.
\<close>

subsection \<open>Constants\<close>

definition HeaderLines :: int where "HeaderLines = 8"
definition FooterLines :: int where "FooterLines = - 2"
definition RequiredColumns :: int where "RequiredColumns = 13"
definition MaxRetryAttempts :: int where "MaxRetryAttempts = 3"

definition ErrInsufficientData :: error where
  "ErrInsufficientData = PackageVar ''unm.ErrInsufficientData'' ''insufficient data in response''"

definition ErrMaxRetriesExceeded :: error where
  "ErrMaxRetriesExceeded =
     PackageVar ''unm.ErrMaxRetriesExceeded'' ''maximum retry attempts exceeded''"


definition LoginCommand :: "string \<Rightarrow> string \<Rightarrow> string" where
  "LoginCommand un pwd = ''LOGIN:::CTAG::UN='' @ un @ '',PWD='' @ pwd @ '';''"

definition LogoutCommand :: string where
  "LogoutCommand = ''LOGOUT:::CTAG::;''"

definition DeleteOnuCommand :: "string \<Rightarrow> nat \<Rightarrow> nat \<Rightarrow> string \<Rightarrow> string" where
  "DeleteOnuCommand olt slot port' onuid =
     ''DEL-ONU::OLTID='' @ olt @ '',PONID=NA-NA-'' @ showNat slot @ ''-'' @ showNat port'
       @ '':CTAG::ONUIDTYPE=MAC,ONUID='' @ onuid @ '';''"

definition AddOnuCommand ::
  "string \<Rightarrow> nat \<Rightarrow> nat \<Rightarrow> string \<Rightarrow> string \<Rightarrow> string \<Rightarrow> string \<Rightarrow> string \<Rightarrow> string" where
  "AddOnuCommand olt slot port' onuid n1 n2 n3 onutype =
     ''ADD-ONU::OLTID='' @ olt @ '',PONID=NA-NA-'' @ showNat slot @ ''-'' @ showNat port'
       @ '':CTAG::AUTHTYPE=MAC,ONUID='' @ onuid @ '',NAME='' @ n1 @ '' | '' @ n2 @ '' - '' @ n3
       @ '',ONUTYPE='' @ onutype @ '';''"

definition SetWanServiceCommand ::
  "string \<Rightarrow> nat \<Rightarrow> nat \<Rightarrow> string \<Rightarrow> string \<Rightarrow> string \<Rightarrow> string \<Rightarrow> string \<Rightarrow> string \<Rightarrow> string" where
  "SetWanServiceCommand olt slot port' onuid vlan user pass pname selector =
     ''SET-WANSERVICE::OLTID='' @ olt @ '',PONID=NA-NA-'' @ showNat slot @ ''-'' @ showNat port'
       @ '',ONUIDTYPE=MAC,ONUID='' @ onuid
       @ '':CTAG::STATUS=1,MODE=3,CONNTYPE=2,VLAN='' @ vlan
       @ '',COS=0,QOS=2,NAT=1,IPMODE=3,IPSTACKMODE=1,IP6SRCTYPE=0,PPPOEPROXY=2,PPPOEUSER='' @ user
       @ '',PPPOEPASSWD='' @ pass @ '',PPPOENAME='' @ pname @ '',PPPOEMODE=1,'' @ selector @ '';''"

definition ActivateLanPortCommand :: "string \<Rightarrow> nat \<Rightarrow> nat \<Rightarrow> string \<Rightarrow> string" where
  "ActivateLanPortCommand olt slot port' onuid =
     ''ACT-LANPORT::OLTID='' @ olt @ '',PONID=NA-NA-'' @ showNat slot @ ''-'' @ showNat port'
       @ '',ONUIDTYPE=MAC,ONUID='' @ onuid @ '',ONUPORT=NA-NA-NA-1:CTAG::;''"

subsection \<open>Records\<close>

record OpticalNetworkUnit =
  OltID :: string
  PonID :: string
  OnuNo :: string
  Name :: string
  Desc :: string
  OnuType :: string
  IP :: string
  AuthType :: string
  Mac :: string
  LoID :: string
  Pwd :: string
  SwVer :: string
  HwVer :: string

record OpticalNetworkUnitInfo =
  OnuID :: string
  RxPower :: string
  RxPowerStatus :: string
  TxPower :: string
  TxPowerStatus :: string
  CurrTxBias :: string
  CurrTxBiasStatus :: string
  Temperature :: string
  TemperatureStatus :: string
  Voltage :: string
  VoltageStatus :: string
  PTxPower :: string
  PRxPower :: string

record OnuProvisioningConfig =
  OltIP :: string
  PonSlot :: "64 word"
  PonPort :: "64 word"
  Serial :: string
  Splitter :: string
  SplitterPort :: string
  ClientName :: string
  Model :: string
  Vlan :: string
  PPPoEUser :: string
  PPPoEPass :: string

text \<open>
  What the logger received: level, message and fields, in the order of the calls.
\<close>

datatype level = DebugLevel | InfoLevel | WarnLevel

type_synonym logEntry = "level \<times> string \<times> (string \<times> string) list"

text \<open>
  The \<^verbatim>\<open>Transporter\<close> interface.  An implementation is an object with a state of its own
  (type \<open>'t\<close>); each method takes that state and returns the new one with its result.
  A \<^verbatim>\<open>context.Context\<close> is passed through to \<^verbatim>\<open>Send\<close> unread, so it is a token:
  \<^verbatim>\<open>context.Background()\<close> or a context of the caller's.  The methods are total functions:
  a call into the transporter is taken to return.
\<close>

datatype "context" = Background | Ctx nat

record 't Transporter =
  Close :: "'t \<Rightarrow> error option \<times> 't"
  Reconnect :: "'t \<Rightarrow> error option \<times> 't"
  IsConnected :: "'t \<Rightarrow> bool \<times> 't"
  Send :: "context \<Rightarrow> string \<Rightarrow> 't \<Rightarrow> (error + string) \<times> 't"

text \<open>
  The client: the fields of \<^verbatim>\<open>UNMClient\<close>.  \<open>transporter\<close> is the state of the transporter
  object the client points to, \<open>logger\<close> what has been logged so far; the mutex has no
  counterpart, the model runs one call at a time.
\<close>

record 't UNMClient =
  username :: string
  password :: string
  transporter :: 't
  connected :: bool
  logger :: "logEntry list"

subsection \<open>Decoding the optical-information response\<close>

fun splitAndTrimLoop :: "string list \<Rightarrow> string list \<Rightarrow> string list" where
  \<comment> \<open>the loop of \<open>splitAndTrimLines\<close>, the second argument being \<^verbatim>\<open>nonEmptyLines\<close>\<close>
  "splitAndTrimLoop [] nonEmptyLines = nonEmptyLines"
| "splitAndTrimLoop (line # rest) nonEmptyLines =
     (let trimmedLine = strings_TrimSpace line in
      if trimmedLine \<noteq> [] then splitAndTrimLoop rest (nonEmptyLines @ [trimmedLine])
      else splitAndTrimLoop rest nonEmptyLines)"

definition splitAndTrimLines :: "string \<Rightarrow> string list" where
  "splitAndTrimLines input = splitAndTrimLoop (strings_Split input (CHR 0x0A)) []"

definition parseResponseLines :: "string \<Rightarrow> int \<Rightarrow> error + string list" where
  "parseResponseLines response minLines =
     (let formattedResult = strings_ReplaceAll response (CHR 0x0D) [];
          lines = splitAndTrimLines formattedResult in
      if int (length lines) \<le> minLines then Inl ErrInsufficientData else Inr lines)"

definition columnsError :: "nat \<Rightarrow> error" where
  "columnsError got =
     errors_New (''optical_info command result read buffer does not match: expected ''
       @ showNat (nat RequiredColumns) @ '' columns, got '' @ showNat got)"

definition buildONUInfoFromResponse :: "string \<Rightarrow> (error + OpticalNetworkUnitInfo) outcome" where
  "buildONUInfoFromResponse response =
     (case parseResponseLines response HeaderLines of
        Inl err \<Rightarrow> Returns (Inl (Errorf_w ''optical_info received invalid arguments: '' err))
      | Inr lines \<Rightarrow>
          (case sliceExpr lines HeaderLines (int (length lines) + FooterLines) of
             Panics p \<Rightarrow> Panics p
           | Returns resultLine \<Rightarrow>
               if length resultLine = 0 then Returns (Inl ErrInsufficientData)
               else
                 let items = strings_Split (resultLine ! 0) (CHR 0x09) in
                 if int (length items) < RequiredColumns
                 then Returns (Inl (columnsError (length items)))
                 else Returns (Inr \<lparr>
                   OnuID = items ! 0,
                   RxPower = items ! 1,
                   RxPowerStatus = items ! 2,
                   TxPower = items ! 3,
                   TxPowerStatus = items ! 4,
                   CurrTxBias = items ! 5,
                   CurrTxBiasStatus = items ! 6,
                   Temperature = items ! 7,
                   TemperatureStatus = items ! 8,
                   Voltage = items ! 9,
                   VoltageStatus = items ! 10,
                   PTxPower = items ! 11,
                   PRxPower = items ! 12 \<rparr>)))"


subsection \<open>Decoding the list response\<close>

definition matchesFilter :: "(string \<Rightarrow> string) \<Rightarrow> string \<Rightarrow> string \<Rightarrow> string \<Rightarrow> bool" where
  "matchesFilter toLower name desc filter' =
     (let lowerFilter = toLower filter';
          lowerName = toLower name;
          lowerDesc = toLower desc in
      strings_Contains lowerName lowerFilter \<or> strings_Contains lowerDesc lowerFilter)"

definition createONUFromAttributes ::
  "string list \<Rightarrow> OpticalNetworkUnit option \<times> error option" where
  "createONUFromAttributes attrs =
     (if length attrs < 12
      then (None, Some (errors_New (''insufficient attributes: expected 12, got ''
                                     @ showNat (length attrs))))
      else
        let trimmedAttrs = map strings_TrimSpace attrs in
        (Some \<lparr>
           OltID = trimmedAttrs ! 0,
           PonID = trimmedAttrs ! 1,
           OnuNo = trimmedAttrs ! 2,
           Name = trimmedAttrs ! 3,
           Desc = trimmedAttrs ! 4,
           OnuType = trimmedAttrs ! 5,
           IP = trimmedAttrs ! 6,
           AuthType = trimmedAttrs ! 7,
           Mac = trimmedAttrs ! 8,
           LoID = trimmedAttrs ! 9,
           Pwd = trimmedAttrs ! 10,
           SwVer = trimmedAttrs ! 11,
           HwVer = [] \<rparr>, None))"

definition processONULine ::
  "(string \<Rightarrow> string) \<Rightarrow> string \<Rightarrow> string \<Rightarrow> OpticalNetworkUnit option \<times> error option" where
  \<comment> \<open>\<open>attrs ! 0\<close> is read only when there are 12 attributes: Go's \<^verbatim>\<open>||\<close> does not evaluate
      its right operand when the left one is true, and a split has at least one element\<close>
  "processONULine toLower line filter' =
     (let attrs = strings_Split line (CHR 0x09) in
      if length attrs \<noteq> 12 \<or> attrs ! 0 = ''OLTID'' then (None, None)
      else if filter' \<noteq> [] \<and> \<not> matchesFilter toLower (attrs ! 3) (attrs ! 4) filter'
      then (None, None)
      else createONUFromAttributes attrs)"

fun onuLinesLoop ::
  "(string \<Rightarrow> string) \<Rightarrow> string \<Rightarrow> nat \<Rightarrow> string list \<Rightarrow> OpticalNetworkUnit list \<Rightarrow> logEntry list
     \<Rightarrow> OpticalNetworkUnit list \<times> logEntry list" where
  \<comment> \<open>the loop of \<open>buildONUsFromResponse\<close> from line number \<open>lineNum\<close> on, with the slice
      \<^verbatim>\<open>onus\<close> and the log as they stand\<close>
  "onuLinesLoop toLower filter' lineNum [] onus lg = (onus, lg)"
| "onuLinesLoop toLower filter' lineNum (line # rest) onus lg =
     (let trimmedLine = strings_TrimSpace line in
      if trimmedLine \<noteq> [] then
        (case processONULine toLower trimmedLine filter' of
           (_, Some err) \<Rightarrow>
             onuLinesLoop toLower filter' (Suc lineNum) rest onus
               (lg @ [(WarnLevel, ''Failed to parse ONU line'',
                       [(''error'', errText err), (''line_number'', showNat lineNum)])])
         | (Some onu, None) \<Rightarrow> onuLinesLoop toLower filter' (Suc lineNum) rest (onus @ [onu]) lg
         | (None, None) \<Rightarrow> onuLinesLoop toLower filter' (Suc lineNum) rest onus lg)
      else onuLinesLoop toLower filter' (Suc lineNum) rest onus lg)"

definition buildONUsFromResponse ::
  "(string \<Rightarrow> string) \<Rightarrow> string \<Rightarrow> string \<Rightarrow> logEntry list
     \<Rightarrow> (OpticalNetworkUnit list \<times> error option) \<times> logEntry list" where
  "buildONUsFromResponse toLower response filter' lg =
     (let lines = strings_Split response (CHR 0x0A);
          (onus, lg') = onuLinesLoop toLower filter' 0 lines [] lg in
      ((onus, None), lg'))"

subsection \<open>Commands, server errors, session\<close>

fun FindStringSubmatch :: "string \<Rightarrow> string list" where
  \<comment> \<open>\<^verbatim>\<open>errorRegex.FindStringSubmatch\<close> for the pattern \<^verbatim>\<open>EADD=(.*)\<close>: the leftmost occurrence
      of \<^verbatim>\<open>EADD=\<close> matches, the group runs to the end of the line (\<^verbatim>\<open>.\<close> matches every byte
      but the line feed), and the result is the match followed by the group; nil, the empty
      slice, when the marker does not occur\<close>
  "FindStringSubmatch [] = []"
| "FindStringSubmatch (c # cs) =
     (if prefix ''EADD='' (c # cs)
      then (let g = takeWhile (\<lambda>x. x \<noteq> CHR 0x0A) (drop 5 (c # cs)) in [''EADD='' @ g, g])
      else FindStringSubmatch cs)"

definition isResponseErr :: "string \<Rightarrow> error option" where
  "isResponseErr response =
     (let matches = FindStringSubmatch response in
      if length matches > 1 then
        (let errorMsg = strings_TrimSpace (matches ! 1) in
         if errorMsg \<noteq> [] then Some (errors_New (''UNM server error: '' @ errorMsg))
         else None)
      else None)"

definition isIllegalSessionError :: "(string \<Rightarrow> string) \<Rightarrow> error option \<Rightarrow> bool" where
  "isIllegalSessionError toLower err =
     (case err of
        None \<Rightarrow> False
      | Some e \<Rightarrow> strings_Contains (toLower (errText e)) ''illegal session'')"

definition sendCommand ::
  "'t Transporter \<Rightarrow> context \<Rightarrow> string \<Rightarrow> 't UNMClient \<Rightarrow> (error + string) \<times> 't UNMClient" where
  "sendCommand T ctx command us =
     (case Send T ctx command (transporter us) of
        (Inl err, t') \<Rightarrow> (Inl (Errorf_w ''command failed: '' err), us\<lparr>transporter := t'\<rparr>)
      | (Inr response, t') \<Rightarrow>
          (case isResponseErr response of
             Some err \<Rightarrow> (Inl err, us\<lparr>transporter := t'\<rparr>)
           | None \<Rightarrow> (Inr response, us\<lparr>transporter := t'\<rparr>)))"

definition Login :: "'t Transporter \<Rightarrow> context \<Rightarrow> 't UNMClient \<Rightarrow> error option \<times> 't UNMClient" where
  "Login T ctx us =
     (let command = LoginCommand (username us) (password us) in
      case sendCommand T ctx command us of
        (Inl err, us') \<Rightarrow> (Some (Errorf_w ''login failed: '' err), us')
      | (Inr _, us') \<Rightarrow> (None, us'))"

definition Logout :: "'t Transporter \<Rightarrow> context \<Rightarrow> 't UNMClient \<Rightarrow> error option \<times> 't UNMClient" where
  "Logout T ctx us =
     (case IsConnected T (transporter us) of
        (alive, t') \<Rightarrow>
          if \<not> alive then (None, us\<lparr>transporter := t'\<rparr>)
          else
            (case sendCommand T ctx LogoutCommand (us\<lparr>transporter := t'\<rparr>) of
               (Inl err, us') \<Rightarrow> (Some (Errorf_w ''logout failed: '' err), us')
             | (Inr _, us') \<Rightarrow> (None, us')))"

definition close :: "'t Transporter \<Rightarrow> 't UNMClient \<Rightarrow> error option \<times> 't UNMClient" where
  "close T us =
     (let us1 = us\<lparr>connected := False\<rparr>;
          (e1, us2) = Logout T Background us1;
          errs1 = (case e1 of Some err \<Rightarrow> [err] | None \<Rightarrow> []);
          (e2, t3) = Close T (transporter us2);
          errs2 = (case e2 of Some err \<Rightarrow> errs1 @ [err] | None \<Rightarrow> errs1) in
      (if length errs2 > 0 then Some (errors_Join errs2) else None, us2\<lparr>transporter := t3\<rparr>))"

definition reconnectAndLogin ::
  "'t Transporter \<Rightarrow> context \<Rightarrow> 't UNMClient \<Rightarrow> error option \<times> 't UNMClient" where
  "reconnectAndLogin T ctx us =
     (case Reconnect T (transporter us) of
        (Some err, t') \<Rightarrow> (Some (Errorf_w ''reconnect failed: '' err), us\<lparr>transporter := t'\<rparr>)
      | (None, t') \<Rightarrow>
          (case Login T ctx (us\<lparr>transporter := t'\<rparr>) of
             (Some err, us2) \<Rightarrow>
               (let (_, t3) = Close T (transporter us2) in
                (Some (Errorf_w ''login after reconnect failed: '' err), us2\<lparr>transporter := t3\<rparr>))
           | (None, us2) \<Rightarrow> (None, us2)))"

definition ensureConnection ::
  "'t Transporter \<Rightarrow> context \<Rightarrow> 't UNMClient \<Rightarrow> error option \<times> 't UNMClient" where
  "ensureConnection T ctx us =
     (if connected us then (None, us)
      else
        (case IsConnected T (transporter us) of
           (alive, t1) \<Rightarrow>
             if \<not> alive then
               (case reconnectAndLogin T ctx (us\<lparr>transporter := t1\<rparr>) of
                  (Some err, us2) \<Rightarrow> (Some (Errorf_w ''failed to establish connection: '' err), us2)
                | (None, us2) \<Rightarrow> (None, us2))
             else
               (let (_, us2) = close T (us\<lparr>transporter := t1\<rparr>) in
                case reconnectAndLogin T ctx us2 of
                  (Some err, us3) \<Rightarrow> (Some (Errorf_w ''failed to reconnect: '' err), us3)
                | (None, us3) \<Rightarrow> (None, us3\<lparr>connected := True\<rparr>))))"

subsection \<open>The retry loop\<close>

type_synonym 't operation = "context \<Rightarrow> 't UNMClient \<Rightarrow> error option \<times> 't UNMClient"

function retryLoop ::
  "(string \<Rightarrow> string) \<Rightarrow> 't Transporter \<Rightarrow> context \<Rightarrow> 't operation \<Rightarrow> int \<Rightarrow> error option
     \<Rightarrow> 't UNMClient \<Rightarrow> error option \<times> 't UNMClient" where
  \<comment> \<open>the \<^verbatim>\<open>for\<close> loop of \<open>executeWithRetry\<close> from the test of its condition on, with the
      values of \<^verbatim>\<open>attempt\<close> and \<^verbatim>\<open>lastErr\<close>, and the \<^verbatim>\<open>return\<close> after it.  Where the body
      ends without \<^verbatim>\<open>continue\<close> (an illegal session in the last attempt), the loop's
      post statement runs all the same.\<close>
  "retryLoop toLower T ctx operation attempt lastErr us =
     (if attempt < MaxRetryAttempts then
        (case ensureConnection T ctx us of
           (Some err, us1) \<Rightarrow> retryLoop toLower T ctx operation (attempt + 1) (Some err) us1
         | (None, us1) \<Rightarrow>
             (case operation ctx us1 of
                (None, us2) \<Rightarrow> (None, us2)
              | (Some err, us2) \<Rightarrow>
                  if isIllegalSessionError toLower (Some err) then
                    (let us3 = us2\<lparr>connected := False\<rparr> in
                     if attempt < MaxRetryAttempts - 1
                     then retryLoop toLower T ctx operation (attempt + 1) (Some err) us3
                     else retryLoop toLower T ctx operation (attempt + 1) (Some err) us3)
                  else (Some err, us2)))
      else (Some (Errorf_w_text ErrMaxRetriesExceeded ('': '' @ verb_v lastErr)), us))"
  by pat_completeness auto
termination
  by (relation "measure (\<lambda>(toLower, T, ctx, operation, attempt, lastErr, us).
                  nat (MaxRetryAttempts - attempt))") auto

declare retryLoop.simps [simp del]

definition executeWithRetry ::
  "(string \<Rightarrow> string) \<Rightarrow> 't Transporter \<Rightarrow> context \<Rightarrow> 't operation \<Rightarrow> 't UNMClient
     \<Rightarrow> error option \<times> 't UNMClient" where
  "executeWithRetry toLower T ctx operation us = retryLoop toLower T ctx operation 0 None us"


subsection \<open>Provisioning\<close>












section \<open>Package tl1: the transport\<close>

text \<open>
  The transport talks to the network through \<^verbatim>\<open>net.DialTimeout\<close> and the methods of the
  \<^verbatim>\<open>net.Conn\<close> it gets.  \<open>'w\<close> is the state of the world outside the program, a connection
  is a handle into it, and each call takes the world and returns the new one with its
  result: \<open>ConnRead c n\<close> reads at most \<open>n\<close> bytes and returns them with the error, if any;
  \<open>SetReadDeadline c True\<close> sets the deadline of the liveness check,
  \<open>SetReadDeadline c False\<close> clears it.  The read-write mutex has no counterpart.
\<close>

record 'w Net =
  DialTimeout :: "string \<Rightarrow> 'w \<Rightarrow> (error + nat) \<times> 'w"
  ConnClose :: "nat \<Rightarrow> 'w \<Rightarrow> error option \<times> 'w"
  SetReadDeadline :: "nat \<Rightarrow> bool \<Rightarrow> 'w \<Rightarrow> error option \<times> 'w"
  ConnRead :: "nat \<Rightarrow> nat \<Rightarrow> 'w \<Rightarrow> (string \<times> error option) \<times> 'w"
  ConnWrite :: "nat \<Rightarrow> string \<Rightarrow> 'w \<Rightarrow> error option \<times> 'w"

record TL1Transport =
  hostname :: string
  port :: "16 word"
  conn :: "nat option"
  closed :: bool

definition ReadBufferSize :: nat where "ReadBufferSize = 4096"
definition CommandTerminator :: string where "CommandTerminator = '';''"

definition ErrNotConnected :: error where
  "ErrNotConnected = PackageVar ''tl1.ErrNotConnected'' ''not connected to server''"

definition ErrInvalidResponse :: error where
  "ErrInvalidResponse = PackageVar ''tl1.ErrInvalidResponse'' ''invalid response format''"

definition io_EOF :: error where
  "io_EOF = PackageVar ''io.EOF'' ''EOF''"

definition JoinHostPort :: "string \<Rightarrow> string \<Rightarrow> string" where
  \<comment> \<open>\<^verbatim>\<open>net.JoinHostPort\<close>: a host holding a colon goes into brackets\<close>
  "JoinHostPort host p =
     (if CHR '':'' \<in> set host then ''['' @ host @ '']:'' @ p else host @ '':'' @ p)"

definition connect :: "'w Net \<Rightarrow> TL1Transport \<times> 'w \<Rightarrow> error option \<times> (TL1Transport \<times> 'w)" where
  "connect N s =
     (case s of (t, w) \<Rightarrow>
        (let address = JoinHostPort (hostname t) (showNat (unat (port t))) in
         (case DialTimeout N address w of
            (Inl err, w') \<Rightarrow>
              (Some (Errorf_w (''failed to connect to '' @ address @ '': '') err), (t, w'))
          | (Inr c, w') \<Rightarrow> (None, (t\<lparr>conn := Some c, closed := False\<rparr>, w')))))"

definition isConnectionAlive ::
  "'w Net \<Rightarrow> TL1Transport \<times> 'w \<Rightarrow> error option \<times> (TL1Transport \<times> 'w)" where
  "isConnectionAlive N s =
     (case s of (t, w) \<Rightarrow>
        (case conn t of
           None \<Rightarrow> (Some ErrNotConnected, (t, w))
         | Some c \<Rightarrow>
             (case SetReadDeadline N c True w of
                (Some err, w1) \<Rightarrow> (Some (Errorf_w ''failed to set read deadline: '' err), (t, w1))
              | (None, w1) \<Rightarrow>
                  (case ConnRead N c 1 w1 of
                     ((_, rerr), w2) \<Rightarrow>
                       (let (_, w3) = SetReadDeadline N c False w2 in
                        (case rerr of
                           Some err \<Rightarrow>
                             if netTimeout err then (None, (t, w3))
                             else (Some (Errorf_w ''connection check failed: '' err), (t, w3))
                         | None \<Rightarrow> (None, (t, w3))))))))"

definition TL1_ensureConnection ::
  "'w Net \<Rightarrow> TL1Transport \<times> 'w \<Rightarrow> error option \<times> (TL1Transport \<times> 'w)" where
  "TL1_ensureConnection N s =
     (if closed (fst s) then (Some ErrNotConnected, s)
      else
        case isConnectionAlive N s of
          (Some err, s1) \<Rightarrow>
            if \<not> errors_Is err ErrNotConnected then
              (case connect N s1 of
                 (Some reconnectErr, s2) \<Rightarrow> (Some (Errorf_w ''reconnection failed: '' reconnectErr), s2)
               | (None, s2) \<Rightarrow> (None, s2))
            else (Some err, s1)
        | (None, s1) \<Rightarrow> (None, s1))"

text \<open>
  The read loop of \<open>readResponse\<close> has no bound: a peer that keeps sending chunks without
  the terminator keeps it running.  \<open>None\<close> is the run that never returns.
\<close>

partial_function (option) readLoop ::
  "'w Net \<Rightarrow> nat \<Rightarrow> string \<Rightarrow> 'w \<Rightarrow> ((error + string) \<times> 'w) option" where
  "readLoop N c response w =
     (case ConnRead N c ReadBufferSize w of
        ((chunk, Some err), w') \<Rightarrow>
          if errors_Is err io_EOF then Some (Inr response, w')
          else Some (Inl (Errorf_w ''failed to read response: '' err), w')
      | ((chunk, None), w') \<Rightarrow>
          if strings_HasSuffix (strings_TrimSpace chunk) CommandTerminator
          then Some (Inr (response @ chunk), w')
          else readLoop N c (response @ chunk) w')"

definition readResponse ::
  "'w Net \<Rightarrow> TL1Transport \<times> 'w \<Rightarrow> ((error + string) \<times> (TL1Transport \<times> 'w)) option" where
  "readResponse N s =
     (case s of (t, w) \<Rightarrow>
        (case conn t of
           None \<Rightarrow> Some (Inl ErrNotConnected, (t, w))
         | Some c \<Rightarrow>
             (case readLoop N c [] w of
                None \<Rightarrow> None
              | Some (Inl err, w') \<Rightarrow> Some (Inl err, (t, w'))
              | Some (Inr result, w') \<Rightarrow>
                  if result = [] then Some (Inl ErrInvalidResponse, (t, w'))
                  else Some (Inr result, (t, w')))))"

text \<open>
  \<open>Cmd\<close> writes to \<^verbatim>\<open>t.conn\<close> after the connection check.  A nil \<^verbatim>\<open>t.conn\<close> there would be
  a nil dereference; the branch is part of the model.
\<close>

datatype 'a run = Done 'a | NilDereference

definition Cmd ::
  "'w Net \<Rightarrow> string \<Rightarrow> TL1Transport \<times> 'w \<Rightarrow> ((error + string) \<times> (TL1Transport \<times> 'w)) run option" where
  "Cmd N command s =
     (if command = [] then Some (Done (Inl (errors_New ''command cannot be empty''), s))
      else if closed (fst s) then Some (Done (Inl ErrNotConnected, s))
      else
        case TL1_ensureConnection N s of
          (Some err, s1) \<Rightarrow> Some (Done (Inl (Errorf_w ''connection check failed: '' err), s1))
        | (None, (t1, w1)) \<Rightarrow>
            (case conn t1 of
               None \<Rightarrow> Some NilDereference
             | Some c \<Rightarrow>
                 (case ConnWrite N c command w1 of
                    (Some err, w2) \<Rightarrow> Some (Done (Inl (Errorf_w ''failed to send command: '' err), (t1, w2)))
                  | (None, w2) \<Rightarrow>
                      (case readResponse N (t1, w2) of
                         None \<Rightarrow> None
                       | Some (Inl err, s3) \<Rightarrow>
                           Some (Done (Inl (Errorf_w ''failed to read response: '' err), s3))
                       | Some (Inr response, s3) \<Rightarrow> Some (Done (Inr response, s3))))))"

text \<open>
  \<open>TL1_Send\<close> runs \<open>Cmd\<close> in a goroutine and waits for its result or for the context,
  whichever comes first.  \<open>ctxErr\<close> says which: \<open>None\<close> when the result is taken,
  \<open>Some err\<close> when the context is done first, with \<^verbatim>\<open>ctx.Err()\<close>.  The goroutine's call is
  put before the wait; a run in which \<open>TL1_Send\<close> returns while the call is still in flight
  has no counterpart here.
\<close>

definition TL1_Send ::
  "'w Net \<Rightarrow> error option \<Rightarrow> string \<Rightarrow> TL1Transport \<times> 'w
     \<Rightarrow> ((error + string) \<times> (TL1Transport \<times> 'w)) run option" where
  "TL1_Send N ctxErr command s =
     (if command = [] then Some (Done (Inl (errors_New ''command cannot be empty''), s))
      else
        case Cmd N command s of
          None \<Rightarrow> None
        | Some NilDereference \<Rightarrow> Some NilDereference
        | Some (Done (result, s')) \<Rightarrow>
            (case ctxErr of
               None \<Rightarrow> Some (Done (result, s'))
             | Some err \<Rightarrow> Some (Done (Inl (Errorf_w ''command cancelled: '' err), s'))))"

definition TL1_Reconnect ::
  "'w Net \<Rightarrow> TL1Transport \<times> 'w \<Rightarrow> error option \<times> (TL1Transport \<times> 'w)" where
  "TL1_Reconnect N s =
     (case s of (t, w) \<Rightarrow>
        let w1 = (case conn t of Some c \<Rightarrow> snd (ConnClose N c w) | None \<Rightarrow> w) in
        connect N (t, w1))"

definition TL1_Close ::
  "'w Net \<Rightarrow> TL1Transport \<times> 'w \<Rightarrow> error option \<times> (TL1Transport \<times> 'w)" where
  "TL1_Close N s =
     (case s of (t, w) \<Rightarrow>
        (let t1 = t\<lparr>closed := True\<rparr> in
         (case conn t1 of
            Some c \<Rightarrow> (case ConnClose N c w of (err, w') \<Rightarrow> (err, (t1\<lparr>conn := None\<rparr>, w')))
          | None \<Rightarrow> (None, (t1, w)))))"

definition TL1_IsConnected ::
  "'w Net \<Rightarrow> TL1Transport \<times> 'w \<Rightarrow> bool \<times> (TL1Transport \<times> 'w)" where
  "TL1_IsConnected N s =
     (if closed (fst s) \<or> conn (fst s) = None then (False, s)
      else case isConnectionAlive N s of (err, s') \<Rightarrow> (err = None, s'))"


section \<open>Notions the statements use\<close>

subsection \<open>Lines and fields of a response\<close>

definition lineText :: "string \<Rightarrow> string" where
  \<comment> \<open>what the optical-information decoder keeps of one line of the response: the carriage
      returns removed, then the white space at both ends\<close>
  "lineText l = strings_TrimSpace (strings_ReplaceAll l (CHR 0x0D) [])"

definition nonEmptyTrimmedLines :: "string \<Rightarrow> string list" where
  \<comment> \<open>the non-empty trimmed lines of a response, carriage returns removed\<close>
  "nonEmptyTrimmedLines response =
     filter (\<lambda>l. l \<noteq> [])
       (map strings_TrimSpace
          (strings_Split (strings_ReplaceAll response (CHR 0x0D) []) (CHR 0x0A)))"

definition keptLine :: "(string \<Rightarrow> string) \<Rightarrow> string \<Rightarrow> string \<Rightarrow> bool" where
  \<comment> \<open>a line of the list response that yields a record: 12 fields between tabs, the first
      not the header token, and, under a filter, the lower-cased filter a substring of the
      lower-cased fourth or fifth field\<close>
  "keptLine toLower filter' line =
     (let attrs = strings_Split line (CHR 0x09) in
      length attrs = 12 \<and> attrs ! 0 \<noteq> ''OLTID'' \<and>
      (filter' = [] \<or>
       sublist (toLower filter') (toLower (attrs ! 3)) \<or>
       sublist (toLower filter') (toLower (attrs ! 4))))"

definition summaryOfLine :: "string \<Rightarrow> OpticalNetworkUnit" where
  \<comment> \<open>the record of a line: its fields between tabs, each trimmed, in order\<close>
  "summaryOfLine line =
     (let a = map strings_TrimSpace (strings_Split line (CHR 0x09)) in
      \<lparr> OltID = a ! 0, PonID = a ! 1, OnuNo = a ! 2, Name = a ! 3, Desc = a ! 4,
        OnuType = a ! 5, IP = a ! 6, AuthType = a ! 7, Mac = a ! 8, LoID = a ! 9,
        Pwd = a ! 10, SwVer = a ! 11, HwVer = [] \<rparr>)"

subsection \<open>Sample responses\<close>

definition nineLines :: string where
  "nineLines =
     joinWith (CHR 0x0A)
       [''M  SHELF-1'', ''H2'', ''H3'', ''H4'', ''H5'', ''H6'', ''H7'', ''H8'', ''ONU-1'']"

definition sevenLines :: string where
  "sevenLines = joinWith (CHR 0x0A) [''H1'', ''H2'', ''H3'', ''H4'', ''H5'', ''H6'', ''ONU-1'']"

definition sampleHeaders :: "string list" where
  "sampleHeaders = [''H1'', ''H2'', ''H3'', ''H4'', ''H5'', ''H6'', ''H7'', ''H8'']"

definition sampleCols :: "string list" where
  "sampleCols = [''ONU-1'', ''-20.1'', ''ok'', ''2.3'', ''ok'', ''11.5'', ''ok'', ''41.0'', ''ok'',
                 ''3.3'', ''ok'', ''4.1'', ''-19.7'']"

definition sampleFooters :: "string list" where
  "sampleFooters = [''---'', '';'']"

definition sampleInfo :: string where
  \<comment> \<open>a response as a server sends it: every line ends in carriage return and line feed,
      a blank line follows the headers, and the data line is indented\<close>
  "sampleInfo =
     joinWith (CHR 0x0A)
       (map (\<lambda>l. l @ [CHR 0x0D])
          (sampleHeaders @ [[], ''  '' @ joinWith (CHR 0x09) sampleCols] @ sampleFooters))"

definition paddedRows :: string where
  \<comment> \<open>two rows of 12 fields: the description of the first stands between spaces, the
      last field of the second is empty\<close>
  "paddedRows =
     joinWith (CHR 0x0A)
       [joinWith (CHR 0x09) [''10.0.0.1'', ''NA-NA-1-2'', ''1'', ''Ana Souza'', '' casa '',
                             ''HG260'', ''--'', ''MAC'', ''AABBCC'', ''--'', ''--'', ''V1''],
        joinWith (CHR 0x09) [''10.0.0.1'', ''NA-NA-1-2'', ''6'', ''Enzo'', ''sobrado'',
                             ''HG260'', ''--'', ''MAC'', ''445566'', ''--'', ''--'', []]]"

definition sampleList :: string where
  "sampleList =
     joinWith (CHR 0x0A)
       [joinWith (CHR 0x09) [''OLTID'', ''PONID'', ''ONUNO'', ''NAME'', ''DESC'', ''ONUTYPE'',
                             ''IP'', ''AUTHTYPE'', ''MAC'', ''LOID'', ''PWD'', ''SWVER''],
        ''--------'',
        joinWith (CHR 0x09) [''10.0.0.1'', ''NA-NA-1-2'', ''1'', ''Ana Souza'', '' casa '',
                             ''HG260'', ''--'', ''MAC'', ''AABBCC'', ''--'', ''--'', ''V1''],
        joinWith (CHR 0x09) [''10.0.0.1'', ''NA-NA-1-2'', ''2'', ''Bruno'', ''short row''],
        [],
        joinWith (CHR 0x09) [''10.0.0.1'', ''NA-NA-1-2'', ''3'', ''Carla'', ''vizinha da ANA'',
                             ''HG260'', ''--'', ''MAC'', ''DDEEFF'', ''--'', ''--'', ''V1''],
        joinWith (CHR 0x09) [''10.0.0.1'', ''NA-NA-1-2'', ''4'', ''Davi'', ''loja'',
                             ''HG260'', ''--'', ''MAC'', ''112233'', ''--'', ''--'', ''V2'']]"

subsection \<open>The error marker of a response\<close>

definition firstMarker :: "string \<Rightarrow> string \<Rightarrow> string \<Rightarrow> string \<Rightarrow> bool" where
  \<comment> \<open>the response holds the marker \<^verbatim>\<open>EADD=\<close>, first after \<open>pre\<close>, and \<open>msg\<close> is the message
      that follows it, up to the end of the line\<close>
  "firstMarker response pre msg rest =
     (response = pre @ ''EADD='' @ msg @ rest \<and>
      \<not> sublist ''EADD='' (pre @ ''EADD'') \<and>
      CHR 0x0A \<notin> set msg \<and> (rest = [] \<or> hd rest = CHR 0x0A))"

subsection \<open>Attempts of the retry loop\<close>

text \<open>
  One attempt: ensure the connection, then run the operation.  It ends the call
  (\<open>Finished\<close>) with success or with an error of the operation that is not an illegal
  session; it asks for another attempt (\<open>Retry\<close>) when the connection could not be ensured,
  whatever the error, or when the operation's error is an illegal session, the flag then
  cleared.
\<close>

datatype attemptResult = Finished "error option" | Retry error

definition attemptOnce ::
  "(string \<Rightarrow> string) \<Rightarrow> 't Transporter \<Rightarrow> context \<Rightarrow> 't operation \<Rightarrow> 't UNMClient
     \<Rightarrow> attemptResult \<times> 't UNMClient" where
  "attemptOnce toLower T ctx operation us =
     (case ensureConnection T ctx us of
        (Some err, us1) \<Rightarrow> (Retry err, us1)
      | (None, us1) \<Rightarrow>
          (case operation ctx us1 of
             (None, us2) \<Rightarrow> (Finished None, us2)
           | (Some err, us2) \<Rightarrow>
               if strings_Contains (toLower (errText err)) ''illegal session''
               then (Retry err, us2\<lparr>connected := False\<rparr>)
               else (Finished (Some err), us2)))"

definition maxRetriesExceeded :: "error \<Rightarrow> error" where
  "maxRetriesExceeded lastErr =
     Error (''maximum retry attempts exceeded: '' @ errText lastErr) [ErrMaxRetriesExceeded] False"

subsection \<open>A transporter that records its exchanges\<close>

text \<open>
  \<open>recording T\<close> behaves as \<open>T\<close> and keeps, beside the state of \<open>T\<close>, every command handed
  to \<open>Send\<close> with the result \<open>Send\<close> gave.  \<open>commandError\<close> is the error \<open>sendCommand\<close>
  makes of such a result, \<open>None\<close> if the command succeeded.
\<close>

type_synonym exchange = "string \<times> (error + string)"





definition wanCommand :: "OnuProvisioningConfig \<Rightarrow> string \<Rightarrow> string" where
  "wanCommand config selector =
     SetWanServiceCommand (OltIP config) (unat (PonSlot config)) (unat (PonPort config))
       (Serial config) (Vlan config) (PPPoEUser config) (PPPoEPass config) (PPPoEUser config)
       selector"

definition provisioningCommands :: "OnuProvisioningConfig \<Rightarrow> string list" where
  "provisioningCommands config =
     [DeleteOnuCommand (OltIP config) (unat (PonSlot config)) (unat (PonPort config))
        (Serial config),
      AddOnuCommand (OltIP config) (unat (PonSlot config)) (unat (PonPort config))
        (Serial config) (Splitter config) (SplitterPort config) (ClientName config)
        (Model config),
      wanCommand config ''UPORT=1'', wanCommand config ''UPORT=2'',
      wanCommand config ''UPORT=3'', wanCommand config ''UPORT=4'',
      wanCommand config ''SSID=1'', wanCommand config ''SSID=5'',
      ActivateLanPortCommand (OltIP config) (unat (PonSlot config)) (unat (PonPort config))
        (Serial config)]"



text \<open>
  \<open>erase\<close> forgets the record: the client over \<open>recording T\<close> seen as a client over \<open>T\<close>.
\<close>

definition erase :: "('t \<times> exchange list) UNMClient \<Rightarrow> 't UNMClient" where
  "erase us =
     \<lparr> username = username us, password = password us, transporter = fst (transporter us),
       connected = connected us, logger = logger us \<rparr>"






subsection \<open>Operations on the transport\<close>

text \<open>
  The operations of the transport other than \<open>TL1_Reconnect\<close>, and the state they leave
  when they return.
\<close>

datatype tl1_op = OpClose | OpCmd string | OpSend "error option" string | OpIsConnected

definition resultOf :: "('a \<times> 's) run option \<Rightarrow> 'a option" where
  "resultOf x = (case x of Some (Done (r, s)) \<Rightarrow> Some r | _ \<Rightarrow> None)"

definition stateOf :: "('a \<times> 's) run option \<Rightarrow> 's option" where
  "stateOf x = (case x of Some (Done (r, s)) \<Rightarrow> Some s | _ \<Rightarrow> None)"

fun runOp :: "'w Net \<Rightarrow> tl1_op \<Rightarrow> TL1Transport \<times> 'w \<Rightarrow> (TL1Transport \<times> 'w) option" where
  "runOp N OpClose s = Some (snd (TL1_Close N s))"
| "runOp N (OpCmd command) s = stateOf (Cmd N command s)"
| "runOp N (OpSend ctxErr command) s = stateOf (TL1_Send N ctxErr command s)"
| "runOp N OpIsConnected s = Some (snd (TL1_IsConnected N s))"

fun runOps :: "'w Net \<Rightarrow> tl1_op list \<Rightarrow> TL1Transport \<times> 'w \<Rightarrow> (TL1Transport \<times> 'w) option" where
  "runOps N [] s = Some s"
| "runOps N (op # ops) s = (case runOp N op s of None \<Rightarrow> None | Some s' \<Rightarrow> runOps N ops s')"


subsection \<open>A scripted transporter, a scripted network, and sample inputs\<close>

text \<open>
  \<open>mockTransporter\<close> answers the calls of \<open>Send\<close> and \<open>Reconnect\<close> from scripts, reports as
  connected what the last \<open>Reconnect\<close> or \<open>Close\<close> left, and keeps the calls it received.
  \<open>scriptedNet\<close> answers the reads of a connection from a script.  Both serve the concrete
  runs below.
\<close>

datatype call = CallClose | CallReconnect | CallIsConnected | CallSend string

record mock =
  replies :: "(error + string) list"
  dials :: "error option list"
  up :: bool
  calls :: "call list"

definition mockTransporter :: "mock Transporter" where
  "mockTransporter = \<lparr>
     Close = (\<lambda>m. (None, m\<lparr>up := False, calls := calls m @ [CallClose]\<rparr>)),
     Reconnect = (\<lambda>m. case dials m of
                     [] \<Rightarrow> (None, m\<lparr>up := True, calls := calls m @ [CallReconnect]\<rparr>)
                   | d # ds \<Rightarrow> (d, m\<lparr>dials := ds, up := (d = None),
                                     calls := calls m @ [CallReconnect]\<rparr>)),
     IsConnected = (\<lambda>m. (up m, m\<lparr>calls := calls m @ [CallIsConnected]\<rparr>)),
     Send = (\<lambda>ctx command m. case replies m of
                     [] \<Rightarrow> (Inr ''M  COMPLD;'', m\<lparr>calls := calls m @ [CallSend command]\<rparr>)
                   | r # rs \<Rightarrow> (r, m\<lparr>replies := rs, calls := calls m @ [CallSend command]\<rparr>)) \<rparr>"

definition mockClient :: "bool \<Rightarrow> mock \<Rightarrow> mock UNMClient" where
  "mockClient flag m =
     \<lparr> username = ''admin'', password = ''secret'', transporter = m, connected = flag,
       logger = [] \<rparr>"

record world =
  reads :: "(string \<times> error option) list"
  written :: "string list"
  dialled :: nat

definition timeoutError :: error where
  "timeoutError = Error ''i/o timeout'' [] True"

definition scriptedNet :: "world Net" where
  "scriptedNet = \<lparr>
     DialTimeout = (\<lambda>address w. (Inr (dialled w), w\<lparr>dialled := Suc (dialled w)\<rparr>)),
     ConnClose = (\<lambda>c w. (None, w)),
     SetReadDeadline = (\<lambda>c on w. (None, w)),
     ConnRead = (\<lambda>c n w. case reads w of
                            [] \<Rightarrow> (([], Some io_EOF), w)
                          | r # rs \<Rightarrow> (r, w\<lparr>reads := rs\<rparr>)),
     ConnWrite = (\<lambda>c d w. (None, w\<lparr>written := written w @ [d]\<rparr>)) \<rparr>"

definition sampleTransport :: TL1Transport where
  "sampleTransport = \<lparr> hostname = ''10.0.0.9'', port = 3337, conn = Some 0, closed = False \<rparr>"

definition quietWorld :: world where
  "quietWorld = \<lparr> reads = [([], Some timeoutError), (''M  OK;'', None)], written = [], dialled = 1 \<rparr>"

definition pendingWorld :: world where
  "pendingWorld = \<lparr> reads = [(''M'', None)], written = [], dialled = 1 \<rparr>"

definition endedWorld :: world where
  "endedWorld = \<lparr> reads = [], written = [], dialled = 1 \<rparr>"

definition refusedDial :: error where
  "refusedDial = errors_New ''dial tcp 10.0.0.9:3337: connect: connection refused''"

definition noOperation :: "mock operation" where
  "noOperation ctx us = (None, us)"

definition listOperation :: "mock operation" where
  "listOperation ctx us =
     (case sendCommand mockTransporter ctx ''LST-ONU::OLTID=10.0.0.1,PONID=NA-NA-1-2:CTAG::;'' us of
        (Inl err, us') \<Rightarrow> (Some (Errorf_w ''failed to query ONUs: '' err), us')
      | (Inr response, us') \<Rightarrow> (None, us'))"

definition laterMarkerReply :: string where
  \<comment> \<open>a response with two markers, the first followed by nothing on its line\<close>
  "laterMarkerReply = ''M  CTAG DENY EADD='' @ [CHR 0x0A] @ ''EADD=real failure;''"

definition failureReply :: string where
  "failureReply = ''M  CTAG DENY'' @ [CHR 0x0D, CHR 0x0A] @ ''EN=1  EADD=Some failure  '' @ [CHR 0x0D, CHR 0x0A] @ '';''"


definition sampleConfig :: OnuProvisioningConfig where
  "sampleConfig =
     \<lparr> OltIP = ''OLT1'', PonSlot = 1, PonPort = 2, Serial = ''AABBCC'', Splitter = ''SP-07'',
       SplitterPort = ''3'', ClientName = ''Ana Souza'', Model = ''X'', Vlan = ''100'',
       PPPoEUser = ''u'', PPPoEPass = ''p'' \<rparr>"





definition staleReplies :: mock where
  "staleReplies =
     \<lparr> replies = [Inr ''M  CTAG DENY EADD=Illegal Session''],
       dials = [], up = True, calls = [] \<rparr>"

section \<open>Properties of the library functions\<close>

lemma strings_Split_none: "sep \<notin> set s \<Longrightarrow> strings_Split s sep = [s]"
proof -
  assume "sep \<notin> set s"
  then have d: "dropWhile (\<lambda>c. c \<noteq> sep) s = []" by auto
  show ?thesis by (subst strings_Split.simps) (simp add: d)
qed

lemma strings_Split_first:
  assumes "sep \<notin> set a"
  shows "strings_Split (a @ sep # b) sep = a # strings_Split b sep"
proof -
  from assms have d: "dropWhile (\<lambda>c. c \<noteq> sep) (a @ sep # b) = sep # b"
    by (auto simp: dropWhile_append3)
  from assms have t: "takeWhile (\<lambda>c. c \<noteq> sep) (a @ sep # b) = a"
    by (auto simp: takeWhile_tail)
  show ?thesis by (subst strings_Split.simps) (simp add: d t)
qed

lemma strings_Split_joinWith:
  "xs \<noteq> [] \<Longrightarrow> \<forall>x \<in> set xs. sep \<notin> set x \<Longrightarrow> strings_Split (joinWith sep xs) sep = xs"
proof (induction sep xs rule: joinWith.induct)
  case (1 sep)
  then show ?case by simp
next
  case (2 sep x)
  then show ?case by (simp add: strings_Split_none)
next
  case (3 sep x y ys)
  then show ?case by (simp add: strings_Split_first)
qed

lemma strings_ReplaceAll_remove: "strings_ReplaceAll s c [] = filter (\<lambda>x. x \<noteq> c) s"
  unfolding strings_ReplaceAll_def by (induction s) simp_all

lemma set_joinWith: "set (joinWith sep xs) \<subseteq> insert sep (\<Union> (set ` set xs))"
  by (induction sep xs rule: joinWith.induct) auto

lemma filter_joinWith:
  "P sep \<Longrightarrow> filter P (joinWith sep xs) = joinWith sep (map (filter P) xs)"
  by (induction sep xs rule: joinWith.induct) simp_all

lemma strings_Contains_sublist: "strings_Contains s sub \<longleftrightarrow> sublist sub s"
  by (induction s) (simp_all add: sublist_Cons_right)

section \<open>Decoding the optical-information response\<close>

lemma splitAndTrimLoop_filter:
  "splitAndTrimLoop ls acc = acc @ filter (\<lambda>l. l \<noteq> []) (map strings_TrimSpace ls)"
  by (induction ls arbitrary: acc) (simp_all add: Let_def)

lemma splitAndTrimLines_eq:
  "splitAndTrimLines (strings_ReplaceAll response (CHR 0x0D) []) = nonEmptyTrimmedLines response"
  by (simp add: splitAndTrimLines_def nonEmptyTrimmedLines_def splitAndTrimLoop_filter)

lemma parseResponseLines_eq:
  "parseResponseLines response minLines =
     (if int (length (nonEmptyTrimmedLines response)) \<le> minLines then Inl ErrInsufficientData
      else Inr (nonEmptyTrimmedLines response))"
  by (simp add: parseResponseLines_def splitAndTrimLines_eq Let_def)

lemma nonEmptyTrimmedLines_lines:
  assumes "ls \<noteq> []" and "\<forall>l \<in> set ls. CHR 0x0A \<notin> set l"
  shows "nonEmptyTrimmedLines (joinWith (CHR 0x0A) ls) =
         filter (\<lambda>l. l \<noteq> []) (map lineText ls)"
proof -
  let ?ms = "map (filter (\<lambda>x. x \<noteq> CHR 0x0D)) ls"
  have r: "strings_ReplaceAll (joinWith (CHR 0x0A) ls) (CHR 0x0D) [] = joinWith (CHR 0x0A) ?ms"
    by (simp add: strings_ReplaceAll_remove filter_joinWith)
  have s: "strings_Split (joinWith (CHR 0x0A) ?ms) (CHR 0x0A) = ?ms"
    using assms by (intro strings_Split_joinWith) auto
  have m: "map strings_TrimSpace ?ms = map lineText ls"
    by (simp add: lineText_def strings_ReplaceAll_remove)
  show ?thesis
    unfolding nonEmptyTrimmedLines_def r s m ..
qed

lemma buildONUInfo_data:
  assumes l: "nonEmptyTrimmedLines response = headers @ [joinWith (CHR 0x09) cols] @ footers"
    and h: "length headers = 8" and f: "length footers = 2" and n: "13 \<le> length cols"
    and t: "\<forall>c \<in> set cols. CHR 0x09 \<notin> set c"
  shows "buildONUInfoFromResponse response =
         Returns (Inr \<lparr>
           OnuID = cols ! 0, RxPower = cols ! 1, RxPowerStatus = cols ! 2,
           TxPower = cols ! 3, TxPowerStatus = cols ! 4,
           CurrTxBias = cols ! 5, CurrTxBiasStatus = cols ! 6,
           Temperature = cols ! 7, TemperatureStatus = cols ! 8,
           Voltage = cols ! 9, VoltageStatus = cols ! 10,
           PTxPower = cols ! 11, PRxPower = cols ! 12 \<rparr>)"
proof -
  let ?d = "joinWith (CHR 0x09) cols"
  let ?ls = "headers @ [?d] @ footers"
  have len: "length ?ls = 11" using h f by simp
  have p: "parseResponseLines response HeaderLines = Inr ?ls"
    by (simp only: parseResponseLines_eq l len) (simp add: HeaderLines_def)
  have sl: "sliceExpr ?ls HeaderLines (int (length ?ls) + FooterLines) = Returns [?d]"
    using h f by (simp add: sliceExpr_def HeaderLines_def FooterLines_def)
  have fs: "strings_Split ?d (CHR 0x09) = cols"
    using n t by (intro strings_Split_joinWith) auto
  show ?thesis
    unfolding buildONUInfoFromResponse_def p sum.case sl outcome.case
    using n by (simp add: fs RequiredColumns_def)
qed

lemma buildONUInfo_few_columns:
  assumes l: "nonEmptyTrimmedLines response = headers @ [joinWith (CHR 0x09) cols] @ footers"
    and h: "length headers = 8" and f: "length footers = 2"
    and n: "cols \<noteq> []" "length cols < 13"
    and t: "\<forall>c \<in> set cols. CHR 0x09 \<notin> set c"
  shows "buildONUInfoFromResponse response = Returns (Inl (columnsError (length cols)))"
proof -
  let ?d = "joinWith (CHR 0x09) cols"
  let ?ls = "headers @ [?d] @ footers"
  have len: "length ?ls = 11" using h f by simp
  have p: "parseResponseLines response HeaderLines = Inr ?ls"
    by (simp only: parseResponseLines_eq l len) (simp add: HeaderLines_def)
  have sl: "sliceExpr ?ls HeaderLines (int (length ?ls) + FooterLines) = Returns [?d]"
    using h f by (simp add: sliceExpr_def HeaderLines_def FooterLines_def)
  have fs: "strings_Split ?d (CHR 0x09) = cols"
    using n t by (intro strings_Split_joinWith) auto
  show ?thesis
    unfolding buildONUInfoFromResponse_def p sum.case sl outcome.case
    using n by (simp add: fs RequiredColumns_def)
qed

lemma buildONUInfo_few_lines:
  assumes "length (nonEmptyTrimmedLines response) \<le> 8"
  shows "buildONUInfoFromResponse response =
         Returns (Inl (Errorf_w ''optical_info received invalid arguments: '' ErrInsufficientData))"
  using assms
  by (simp add: buildONUInfoFromResponse_def parseResponseLines_eq HeaderLines_def)

lemma buildONUInfo_returns_unless_nine:
  assumes "length (nonEmptyTrimmedLines response) \<noteq> 9"
  shows "\<exists>r. buildONUInfoFromResponse response = Returns r"
  using assms
  by (auto simp: buildONUInfoFromResponse_def parseResponseLines_eq sliceExpr_def
        HeaderLines_def FooterLines_def Let_def)

text \<open>
  Claim C1 (the code departs from it).  The claim: decoding the optical information never
  crashes; a response with more than 8 non-empty trimmed lines whose data region is
  undersized once the two footer lines are cut, 9 such lines for one, gets an error.
  The code: with exactly 9 non-empty trimmed lines the slice expression
  \<^verbatim>\<open>lines[HeaderLines : len(lines)+FooterLines]\<close> is \<^verbatim>\<open>lines[8:7]\<close>, and the function
  panics before its test for an empty data region is reached.  With any other number of
  lines it returns (\<open>buildONUInfo_returns_unless_nine\<close>).
\<close>

theorem buildONUInfo_nine_lines_panics:
  "length (nonEmptyTrimmedLines response) = 9 \<Longrightarrow>
   buildONUInfoFromResponse response = Panics (SliceBoundsOutOfRange 8 7)"
  by (simp add: buildONUInfoFromResponse_def parseResponseLines_eq sliceExpr_def
        HeaderLines_def FooterLines_def)

theorem buildONUInfo_nine_lines_panics_witness:
  "length (nonEmptyTrimmedLines nineLines) = 9 \<and>
   buildONUInfoFromResponse nineLines = Panics (SliceBoundsOutOfRange 8 7)"
proof -
  have h: "length (nonEmptyTrimmedLines nineLines) = 9" by code_simp
  from buildONUInfo_nine_lines_panics [OF h] h show ?thesis by simp
qed

text \<open>
  Claim C6 (amended).  The claim as written fails: the decoder trims every line before it
  counts and splits, so a data line of 13 fields whose last field is empty loses that
  field, and is refused for having 12 columns.
\<close>

theorem buildONUInfo_positional_counterexample:
  "length (butlast sampleCols @ [[]]) = 13 \<and>
   buildONUInfoFromResponse
     (joinWith (CHR 0x0A)
        (sampleHeaders @ [joinWith (CHR 0x09) (butlast sampleCols @ [[]])] @ sampleFooters)) =
   Returns (Inl (columnsError 12))"
  by code_simp

text \<open>
  Claim C6 as amended, the lines and the fields read as the decoder reads them: the lines
  of a response are its non-empty trimmed lines, carriage returns removed, and the fields
  of the data line are those of the trimmed line.  For every response whose lines are 8
  header lines, one data line of at least 13 fields between tabs, and 2 footer lines,
  decoding succeeds and the record's 13 fields are the first 13 fields of the data line,
  in order; and for every response with at most 8 lines, decoding fails with the
  insufficient-data error.  Blank lines, carriage returns and white space around a line
  are allowed anywhere (\<open>nonEmptyTrimmedLines_lines\<close> reads the lines off the raw ones); a
  data line left with fewer than 13 fields is refused (\<open>buildONUInfo_few_columns\<close>).
\<close>

theorem buildONUInfo_positional:
  "(nonEmptyTrimmedLines response = headers @ [joinWith (CHR 0x09) cols] @ footers \<and>
    length headers = 8 \<and> length footers = 2 \<and> 13 \<le> length cols \<and>
    (\<forall>c \<in> set cols. CHR 0x09 \<notin> set c) \<longrightarrow>
    buildONUInfoFromResponse response =
    Returns (Inr \<lparr>
      OnuID = cols ! 0, RxPower = cols ! 1, RxPowerStatus = cols ! 2,
      TxPower = cols ! 3, TxPowerStatus = cols ! 4,
      CurrTxBias = cols ! 5, CurrTxBiasStatus = cols ! 6,
      Temperature = cols ! 7, TemperatureStatus = cols ! 8,
      Voltage = cols ! 9, VoltageStatus = cols ! 10,
      PTxPower = cols ! 11, PRxPower = cols ! 12 \<rparr>)) \<and>
   (length (nonEmptyTrimmedLines response') \<le> 8 \<longrightarrow>
    buildONUInfoFromResponse response' =
      Returns (Inl (Errorf_w ''optical_info received invalid arguments: '' ErrInsufficientData)) \<and>
    errors_Is (Errorf_w ''optical_info received invalid arguments: '' ErrInsufficientData)
      ErrInsufficientData)"
  using buildONUInfo_data [of response headers cols footers] buildONUInfo_few_lines [of response']
  by (simp add: Errorf_w_def ErrInsufficientData_def)

theorem buildONUInfo_positional_witness:
  "buildONUInfoFromResponse sampleInfo =
   Returns (Inr \<lparr>
      OnuID = ''ONU-1'', RxPower = ''-20.1'', RxPowerStatus = ''ok'',
      TxPower = ''2.3'', TxPowerStatus = ''ok'',
      CurrTxBias = ''11.5'', CurrTxBiasStatus = ''ok'',
      Temperature = ''41.0'', TemperatureStatus = ''ok'',
      Voltage = ''3.3'', VoltageStatus = ''ok'',
      PTxPower = ''4.1'', PRxPower = ''-19.7'' \<rparr>) \<and>
   buildONUInfoFromResponse sevenLines =
     Returns (Inl (Errorf_w ''optical_info received invalid arguments: '' ErrInsufficientData))"
proof -
  have h: "nonEmptyTrimmedLines sampleInfo =
             sampleHeaders @ [joinWith (CHR 0x09) sampleCols] @ sampleFooters \<and>
    length sampleHeaders = 8 \<and> length sampleFooters = 2 \<and> 13 \<le> length sampleCols \<and>
    (\<forall>c \<in> set sampleCols. CHR 0x09 \<notin> set c)"
    by code_simp
  have g: "length (nonEmptyTrimmedLines sevenLines) \<le> 8" by code_simp
  have c: "sampleCols ! 0 = ''ONU-1'' \<and> sampleCols ! 1 = ''-20.1'' \<and> sampleCols ! 2 = ''ok'' \<and>
    sampleCols ! 3 = ''2.3'' \<and> sampleCols ! 4 = ''ok'' \<and> sampleCols ! 5 = ''11.5'' \<and>
    sampleCols ! 6 = ''ok'' \<and> sampleCols ! 7 = ''41.0'' \<and> sampleCols ! 8 = ''ok'' \<and>
    sampleCols ! 9 = ''3.3'' \<and> sampleCols ! 10 = ''ok'' \<and> sampleCols ! 11 = ''4.1'' \<and>
    sampleCols ! 12 = ''-19.7''"
    by code_simp
  from buildONUInfo_positional [of sampleInfo sampleHeaders sampleCols sampleFooters sevenLines]
    h g c
  show ?thesis by simp
qed

section \<open>Decoding the list response\<close>

lemma processONULine_eq:
  "processONULine toLower line filter' =
     (if keptLine toLower filter' line then (Some (summaryOfLine line), None) else (None, None))"
  by (auto simp: processONULine_def keptLine_def summaryOfLine_def matchesFilter_def
        createONUFromAttributes_def strings_Contains_sublist Let_def)

lemma onuLinesLoop_eq:
  "onuLinesLoop toLower filter' lineNum ls onus lg =
     (onus @ map summaryOfLine
        (filter (keptLine toLower filter')
           (filter (\<lambda>l. l \<noteq> []) (map strings_TrimSpace ls))), lg)"
  by (induction ls arbitrary: lineNum onus) (simp_all add: processONULine_eq Let_def)

text \<open>
  Claim C7 (amended).  The claim as written fails in two places.  The filter is matched
  against the fourth and fifth fields before they are trimmed, not against the record's
  name and description: under the filter \<^verbatim>\<open>" CASA "\<close> a row whose description field is
  \<^verbatim>\<open>" casa "\<close> is kept, with the description \<^verbatim>\<open>"casa"\<close>, which does not contain the filter.
  And the fields are counted after the line is trimmed as a whole: a row of 12 fields
  whose last field is empty is left with 11 fields, and is skipped.
\<close>

theorem buildONUs_decoding_counterexample:
  "buildONUsFromResponse asciiToLower paddedRows '' CASA '' [] =
     (([\<lparr> OltID = ''10.0.0.1'', PonID = ''NA-NA-1-2'', OnuNo = ''1'', Name = ''Ana Souza'',
          Desc = ''casa'', OnuType = ''HG260'', IP = ''--'', AuthType = ''MAC'', Mac = ''AABBCC'',
          LoID = ''--'', Pwd = ''--'', SwVer = ''V1'', HwVer = [] \<rparr>], None), []) \<and>
   matchesFilter asciiToLower ''Ana Souza'' ''casa'' '' CASA '' = False \<and>
   length (strings_Split (last (strings_Split paddedRows (CHR 0x0A))) (CHR 0x09)) = 12 \<and>
   length (fst (fst (buildONUsFromResponse asciiToLower paddedRows [] []))) = 1"
  by code_simp

text \<open>
  Claim C7 as amended.  Decoding the list never aborts: for every response and filter the
  result is a list and no error, and nothing is logged.  Every line is trimmed as a whole
  first.  The list holds, in order, the record of every non-empty trimmed line that has
  exactly 12 fields between tabs, whose first field is not the header token \<^verbatim>\<open>OLTID\<close> and
  that passes the filter; the other lines are skipped and change nothing else.  A record
  is the trimmed line's 12 fields, each trimmed.  Under a non-empty filter a line passes
  exactly when the lower-cased filter, as given, is a substring of the lower-cased fourth
  field (the name) or fifth field (the description) of the trimmed line, the fields taken
  as they stand there, before each is trimmed.
\<close>

theorem buildONUs_decoding:
  "buildONUsFromResponse toLower response filter' lg =
     ((map summaryOfLine
         (filter (keptLine toLower filter')
            (filter (\<lambda>l. l \<noteq> [])
               (map strings_TrimSpace (strings_Split response (CHR 0x0A))))), None), lg)"
  by (simp add: buildONUsFromResponse_def onuLinesLoop_eq)

theorem buildONUs_decoding_witness:
  "buildONUsFromResponse asciiToLower sampleList ''ana'' [] =
     (([\<lparr> OltID = ''10.0.0.1'', PonID = ''NA-NA-1-2'', OnuNo = ''1'', Name = ''Ana Souza'',
          Desc = ''casa'', OnuType = ''HG260'', IP = ''--'', AuthType = ''MAC'', Mac = ''AABBCC'',
          LoID = ''--'', Pwd = ''--'', SwVer = ''V1'', HwVer = [] \<rparr>,
        \<lparr> OltID = ''10.0.0.1'', PonID = ''NA-NA-1-2'', OnuNo = ''3'', Name = ''Carla'',
          Desc = ''vizinha da ANA'', OnuType = ''HG260'', IP = ''--'', AuthType = ''MAC'',
          Mac = ''DDEEFF'', LoID = ''--'', Pwd = ''--'', SwVer = ''V1'', HwVer = [] \<rparr>], None), [])"
proof -
  have e: "((map summaryOfLine
         (filter (keptLine asciiToLower ''ana'')
            (filter (\<lambda>l. l \<noteq> [])
               (map strings_TrimSpace (strings_Split sampleList (CHR 0x0A))))),
         None :: error option), [])
        = (([\<lparr> OltID = ''10.0.0.1'', PonID = ''NA-NA-1-2'', OnuNo = ''1'', Name = ''Ana Souza'',
          Desc = ''casa'', OnuType = ''HG260'', IP = ''--'', AuthType = ''MAC'', Mac = ''AABBCC'',
          LoID = ''--'', Pwd = ''--'', SwVer = ''V1'', HwVer = [] \<rparr>,
        \<lparr> OltID = ''10.0.0.1'', PonID = ''NA-NA-1-2'', OnuNo = ''3'', Name = ''Carla'',
          Desc = ''vizinha da ANA'', OnuType = ''HG260'', IP = ''--'', AuthType = ''MAC'',
          Mac = ''DDEEFF'', LoID = ''--'', Pwd = ''--'', SwVer = ''V1'', HwVer = [] \<rparr>], None),
          [] :: logEntry list)"
    by code_simp
  show ?thesis
    by (rule trans [OF buildONUs_decoding e])
qed

section \<open>Server errors in a response\<close>

lemma takeWhile_line:
  "CHR 0x0A \<notin> set msg \<Longrightarrow> rest = [] \<or> hd rest = CHR 0x0A \<Longrightarrow>
   takeWhile (\<lambda>x. x \<noteq> CHR 0x0A) (msg @ rest) = msg"
  by (cases rest) (auto simp: takeWhile_append)

lemma prefix_within:
  assumes "prefix xs (ys @ zs)" and "length xs \<le> length ys"
  shows "prefix xs ys"
  using assms by (auto simp: prefix_append)

lemma FindStringSubmatch_first:
  assumes "\<not> sublist ''EADD='' (pre @ ''EADD'')" and "CHR 0x0A \<notin> set msg"
    and "rest = [] \<or> hd rest = CHR 0x0A"
  shows "FindStringSubmatch (pre @ ''EADD='' @ msg @ rest) = [''EADD='' @ msg, msg]"
  using assms(1)
proof (induction pre)
  case Nil
  show ?case using takeWhile_line [OF assms(2,3)] by (simp add: Let_def)
next
  case (Cons c p)
  from Cons.prems have np: "\<not> prefix ''EADD='' ((c # p) @ ''EADD'')"
    and ns: "\<not> sublist ''EADD='' (p @ ''EADD'')"
    by (auto simp: sublist_Cons_right)
  have e: "c # (p @ ''EADD='' @ msg @ rest) = ((c # p) @ ''EADD'') @ (''='' @ msg @ rest)"
    by simp
  have l: "length ''EADD='' \<le> length ((c # p) @ ''EADD'')" by simp
  have np': "\<not> prefix ''EADD='' (c # (p @ ''EADD='' @ msg @ rest))"
    unfolding e using np prefix_within [OF _ l] by blast
  have "FindStringSubmatch (c # (p @ ''EADD='' @ msg @ rest)) =
        FindStringSubmatch (p @ ''EADD='' @ msg @ rest)"
    by (subst FindStringSubmatch.simps(2)) (simp only: np' if_False)
  then show ?case using Cons.IH [OF ns] by simp
qed

lemma FindStringSubmatch_none:
  "\<not> sublist ''EADD='' response \<Longrightarrow> FindStringSubmatch response = []"
  by (induction response) (auto simp: sublist_Cons_right)

lemma isResponseErr_marker:
  assumes "firstMarker response pre msg rest"
  shows "isResponseErr response =
     (if strings_TrimSpace msg \<noteq> []
      then Some (errors_New (''UNM server error: '' @ strings_TrimSpace msg)) else None)"
proof -
  from assms have r: "response = pre @ ''EADD='' @ msg @ rest"
    and a: "\<not> sublist ''EADD='' (pre @ ''EADD'')" and b: "CHR 0x0A \<notin> set msg"
    and c: "rest = [] \<or> hd rest = CHR 0x0A"
    unfolding firstMarker_def by blast+
  have f: "FindStringSubmatch response = [''EADD='' @ msg, msg]"
    unfolding r by (rule FindStringSubmatch_first [OF a b c])
  show ?thesis unfolding isResponseErr_def f by (simp add: Let_def)
qed

lemma isResponseErr_no_marker:
  "\<not> sublist ''EADD='' response \<Longrightarrow> isResponseErr response = None"
  by (simp add: isResponseErr_def FindStringSubmatch_none)

lemma firstMarker_exists:
  assumes "sublist ''EADD='' response"
  shows "\<exists>pre msg rest. firstMarker response pre msg rest"
proof -
  have "\<exists>pre tl. response = pre @ ''EADD='' @ tl \<and> \<not> sublist ''EADD='' (pre @ ''EADD'')"
    using assms
  proof (induction response)
    case Nil
    then show ?case by simp
  next
    case (Cons c cs)
    show ?case
    proof (cases "prefix ''EADD='' (c # cs)")
      case True
      then obtain tl where "c # cs = ''EADD='' @ tl" by (auto simp: prefix_def)
      moreover have "\<not> sublist ''EADD='' ([] @ ''EADD'')"
        by (auto dest: sublist_length_le)
      ultimately show ?thesis by (metis append_Nil)
    next
      case False
      from Cons.prems have "prefix ''EADD='' (c # cs) \<or> sublist ''EADD='' cs"
        by (simp only: sublist_Cons_right)
      with False have "sublist ''EADD='' cs" by blast
      from Cons.IH [OF this] obtain pre tl where
        cs: "cs = pre @ ''EADD='' @ tl" and n: "\<not> sublist ''EADD='' (pre @ ''EADD'')"
        by blast
      have e: "c # cs = ((c # pre) @ ''EADD'') @ (''='' @ tl)" by (simp add: cs)
      have "\<not> prefix ''EADD='' ((c # pre) @ ''EADD'')"
        using False unfolding e by (metis prefix_prefix)
      with n have "\<not> sublist ''EADD='' ((c # pre) @ ''EADD'')"
        by (simp add: sublist_Cons_right)
      moreover have "c # cs = (c # pre) @ ''EADD='' @ tl" by (simp add: cs)
      ultimately show ?thesis by blast
    qed
  qed
  then obtain pre tl where r: "response = pre @ ''EADD='' @ tl"
    and n: "\<not> sublist ''EADD='' (pre @ ''EADD'')" by blast
  let ?msg = "takeWhile (\<lambda>x. x \<noteq> CHR 0x0A) tl"
  let ?rest = "dropWhile (\<lambda>x. x \<noteq> CHR 0x0A) tl"
  have "CHR 0x0A \<notin> set ?msg" by (auto dest: set_takeWhileD)
  moreover have "?rest = [] \<or> hd ?rest = CHR 0x0A"
    using hd_dropWhile [of "\<lambda>x. x \<noteq> CHR 0x0A" tl] by auto
  moreover have "response = pre @ ''EADD='' @ ?msg @ ?rest" by (simp add: r)
  ultimately have "firstMarker response pre ?msg ?rest"
    unfolding firstMarker_def using n by blast
  then show ?thesis by blast
qed

text \<open>
  Claim C9 (amended).  The claim as written fails: only the first marker of a response is
  read.  A response whose first marker is followed by nothing on its line is returned as
  a success, although a later marker carries a message.
\<close>

theorem sendCommand_marker_counterexample:
  "sendCommand mockTransporter Background ''LOGOUT:::CTAG::;''
     (mockClient True \<lparr> replies = [Inr laterMarkerReply], dials = [], up = True, calls = [] \<rparr>) =
   (Inr laterMarkerReply,
    mockClient True \<lparr> replies = [], dials = [], up = True,
                      calls = [CallSend ''LOGOUT:::CTAG::;''] \<rparr>) \<and>
   sublist ''EADD=real failure;'' laterMarkerReply \<and>
   strings_TrimSpace ''real failure;'' = ''real failure;''"
  by code_simp

text \<open>
  Claim C9 as amended.  When the transport exchange succeeds and the response holds the
  marker \<^verbatim>\<open>EADD=\<close>, the message is what follows the first, leftmost, marker up to the end of
  its line, and later markers are not read: if the message trims to a non-empty string,
  \<open>sendCommand\<close> fails with the server error that carries the trimmed message; if it
  trims to the empty string, or if the response holds no marker, \<open>sendCommand\<close> returns
  the response.  Every response that holds the marker has such a first marker
  (\<open>firstMarker_exists\<close>).
\<close>

theorem sendCommand_marker:
  "Send T ctx command (transporter us) = (Inr response, t') \<longrightarrow>
   (firstMarker response pre msg rest \<and> strings_TrimSpace msg \<noteq> [] \<longrightarrow>
      sendCommand T ctx command us =
        (Inl (errors_New (''UNM server error: '' @ strings_TrimSpace msg)),
         us\<lparr>transporter := t'\<rparr>)) \<and>
   (firstMarker response pre msg rest \<and> strings_TrimSpace msg = [] \<longrightarrow>
      sendCommand T ctx command us = (Inr response, us\<lparr>transporter := t'\<rparr>)) \<and>
   (\<not> sublist ''EADD='' response \<longrightarrow>
      sendCommand T ctx command us = (Inr response, us\<lparr>transporter := t'\<rparr>))"
proof (intro impI conjI)
  assume s: "Send T ctx command (transporter us) = (Inr response, t')"
    and m: "firstMarker response pre msg rest \<and> strings_TrimSpace msg \<noteq> []"
  from m isResponseErr_marker [of response pre msg rest]
  have "isResponseErr response = Some (errors_New (''UNM server error: '' @ strings_TrimSpace msg))"
    by simp
  with s show "sendCommand T ctx command us =
        (Inl (errors_New (''UNM server error: '' @ strings_TrimSpace msg)),
         us\<lparr>transporter := t'\<rparr>)"
    by (simp add: sendCommand_def)
next
  assume s: "Send T ctx command (transporter us) = (Inr response, t')"
    and m: "firstMarker response pre msg rest \<and> strings_TrimSpace msg = []"
  from m isResponseErr_marker [of response pre msg rest]
  have "isResponseErr response = None" by simp
  with s show "sendCommand T ctx command us = (Inr response, us\<lparr>transporter := t'\<rparr>)"
    by (simp add: sendCommand_def)
next
  assume s: "Send T ctx command (transporter us) = (Inr response, t')"
    and m: "\<not> sublist ''EADD='' response"
  from m have "isResponseErr response = None" by (rule isResponseErr_no_marker)
  with s show "sendCommand T ctx command us = (Inr response, us\<lparr>transporter := t'\<rparr>)"
    by (simp add: sendCommand_def)
qed

theorem sendCommand_marker_witness:
  "sendCommand mockTransporter Background ''LOGOUT:::CTAG::;''
     (mockClient True \<lparr> replies = [Inr failureReply], dials = [], up = True, calls = [] \<rparr>) =
   (Inl (errors_New ''UNM server error: Some failure''),
    mockClient True \<lparr> replies = [], dials = [], up = True,
                      calls = [CallSend ''LOGOUT:::CTAG::;''] \<rparr>)"
proof -
  let ?us = "mockClient True \<lparr> replies = [Inr failureReply], dials = [], up = True, calls = [] \<rparr>"
  let ?t' = "\<lparr> replies = [], dials = [], up = True, calls = [CallSend ''LOGOUT:::CTAG::;''] \<rparr>"
  have s: "Send mockTransporter Background ''LOGOUT:::CTAG::;'' (transporter ?us) =
             (Inr failureReply, ?t')"
    by (simp add: mockTransporter_def mockClient_def)
  have m: "firstMarker failureReply (''M  CTAG DENY'' @ [CHR 0x0D, CHR 0x0A] @ ''EN=1  '')
             (''Some failure  '' @ [CHR 0x0D]) (CHR 0x0A # '';'')"
    by code_simp
  have t: "strings_TrimSpace (''Some failure  '' @ [CHR 0x0D]) = ''Some failure''"
    by code_simp
  from sendCommand_marker [of mockTransporter Background "''LOGOUT:::CTAG::;''" ?us failureReply ?t'
         "''M  CTAG DENY'' @ [CHR 0x0D, CHR 0x0A] @ ''EN=1  ''" "''Some failure  '' @ [CHR 0x0D]"
         "CHR 0x0A # '';''"] s m t
  show ?thesis by (simp add: mockClient_def)
qed

section \<open>The transport\<close>

text \<open>
  Claim C3 (amended).  The claim as written fails: a successful read of a pending byte
  is no error, and the probe reports the connection alive.
\<close>

theorem isConnectionAlive_read_counterexample:
  "fst (isConnectionAlive scriptedNet (sampleTransport, pendingWorld)) = None"
  by (simp add: isConnectionAlive_def scriptedNet_def sampleTransport_def pendingWorld_def)

text \<open>
  Claim C3 as amended: with a connection at hand and the deadline set, the probe's result
  follows from what its read of one byte gives: no error when the read succeeds and when
  it fails with a timeout of the network; in every other case, the end of the stream
  included, the read's error wrapped as a failed connection check.
\<close>

theorem isConnectionAlive_classification:
  "conn t = Some c \<and> SetReadDeadline N c True w = (None, w1) \<and>
   ConnRead N c 1 w1 = ((d, rerr), w2) \<longrightarrow>
   fst (isConnectionAlive N (t, w)) =
     (case rerr of
        None \<Rightarrow> None
      | Some err \<Rightarrow>
          if netTimeout err then None
          else Some (Errorf_w ''connection check failed: '' err))"
  by (auto simp: isConnectionAlive_def split: prod.splits option.splits)

theorem isConnectionAlive_classification_witness:
  "fst (isConnectionAlive scriptedNet (sampleTransport, quietWorld)) = None \<and>
   fst (isConnectionAlive scriptedNet (sampleTransport, endedWorld)) =
     Some (Errorf_w ''connection check failed: '' io_EOF)"
proof -
  have a: "conn sampleTransport = Some 0 \<and>
           SetReadDeadline scriptedNet 0 True quietWorld = (None, quietWorld) \<and>
           ConnRead scriptedNet 0 1 quietWorld =
             (([], Some timeoutError), quietWorld\<lparr>reads := [(''M  OK;'', None)]\<rparr>)"
    by (simp add: scriptedNet_def sampleTransport_def quietWorld_def)
  have b: "conn sampleTransport = Some 0 \<and>
           SetReadDeadline scriptedNet 0 True endedWorld = (None, endedWorld) \<and>
           ConnRead scriptedNet 0 1 endedWorld = (([], Some io_EOF), endedWorld)"
    by (simp add: scriptedNet_def sampleTransport_def endedWorld_def)
  have t: "netTimeout timeoutError \<and> \<not> netTimeout io_EOF"
    by (simp add: timeoutError_def io_EOF_def)
  from isConnectionAlive_classification [of sampleTransport 0 scriptedNet quietWorld quietWorld
         "[]" "Some timeoutError" "quietWorld\<lparr>reads := [(''M  OK;'', None)]\<rparr>"]
       isConnectionAlive_classification [of sampleTransport 0 scriptedNet endedWorld endedWorld
         "[]" "Some io_EOF" endedWorld]
       a b t
  show ?thesis by simp
qed

lemma Close_closes:
  "closed (fst (snd (TL1_Close N s))) \<and> conn (fst (snd (TL1_Close N s))) = None"
  by (cases s) (auto simp: TL1_Close_def Let_def split: option.splits prod.splits)

lemma Close_again:
  "closed (fst s) \<Longrightarrow> conn (fst s) = None \<Longrightarrow> TL1_Close N s = (None, s)"
  by (cases s) (simp add: TL1_Close_def)

lemma Cmd_closed:
  "closed (fst s) \<Longrightarrow> command \<noteq> [] \<Longrightarrow> Cmd N command s = Some (Done (Inl ErrNotConnected, s))"
  by (simp add: Cmd_def)

lemma Send_closed:
  "closed (fst s) \<Longrightarrow> command \<noteq> [] \<Longrightarrow>
   TL1_Send N None command s = Some (Done (Inl ErrNotConnected, s))"
  by (simp add: TL1_Send_def Cmd_closed)

lemma runOp_closed:
  "closed (fst s) \<Longrightarrow> conn (fst s) = None \<Longrightarrow> runOp N op s = Some s"
  by (cases op) (auto simp: Close_again stateOf_def Cmd_def TL1_Send_def TL1_IsConnected_def
        split: option.splits)

lemma runOps_closed:
  "closed (fst s) \<Longrightarrow> conn (fst s) = None \<Longrightarrow> runOps N ops s = Some s"
  by (induction ops) (simp_all add: runOp_closed)

lemma Reconnect_closed:
  assumes "conn t = None"
  shows "TL1_Reconnect N (t, w) =
     (case DialTimeout N (JoinHostPort (hostname t) (showNat (unat (port t)))) w of
        (Inl err, w') \<Rightarrow>
          (Some (Errorf_w (''failed to connect to ''
                   @ JoinHostPort (hostname t) (showNat (unat (port t))) @ '': '') err),
           (t, w'))
      | (Inr c, w') \<Rightarrow> (None, (t\<lparr>conn := Some c, closed := False\<rparr>, w')))"
  using assms by (simp add: TL1_Reconnect_def connect_def Let_def)

text \<open>
  Claim C8 (amended).  The claim as written fails: \<open>connect\<close>, which \<open>TL1_Reconnect\<close> ends
  with, clears the closed flag, so after \<open>TL1_Close\<close> and a \<open>TL1_Reconnect\<close> that succeeds a
  command is sent and answered.
\<close>

theorem Close_until_Reconnect_counterexample:
  "resultOf (Cmd scriptedNet LogoutCommand
     (snd (TL1_Reconnect scriptedNet
        (snd (TL1_Close scriptedNet (sampleTransport, quietWorld))))))
    = Some (Inr ''M  OK;'')"
proof -
  have t: "strings_TrimSpace ''M  OK;'' = ''M  OK;''" by code_simp
  have x: "suffix '';'' ''M  OK;''" by code_simp
  show ?thesis
    by (simp add: resultOf_def Cmd_def TL1_Reconnect_def TL1_Close_def sampleTransport_def
          quietWorld_def connect_def scriptedNet_def TL1_ensureConnection_def
          isConnectionAlive_def timeoutError_def readResponse_def readLoop.simps
          ReadBufferSize_def strings_HasSuffix_def CommandTerminator_def LogoutCommand_def t x
          Let_def)
qed

text \<open>
  Claim C8 as amended: after \<open>TL1_Close\<close> the transport is closed; a second
  \<open>TL1_Close\<close> changes nothing and returns no error; whatever operations other than
  \<open>TL1_Reconnect\<close> follow, each returns and none changes the transport or touches the
  network, so that every \<open>Cmd\<close>, and every \<open>TL1_Send\<close> whose context is not done, with
  a non-empty command fails with \<open>ErrNotConnected\<close>; \<open>TL1_Reconnect\<close> may be called: when
  it succeeds the transport is open again, when it fails the transport is as it was.
\<close>

theorem Close_until_Reconnect:
  "closed (fst (snd (TL1_Close N s))) \<and>
   TL1_Close N (snd (TL1_Close N s)) = (None, snd (TL1_Close N s)) \<and>
   runOps N ops (snd (TL1_Close N s)) = Some (snd (TL1_Close N s)) \<and>
   (command \<noteq> [] \<longrightarrow>
      Cmd N command (snd (TL1_Close N s)) = Some (Done (Inl ErrNotConnected, snd (TL1_Close N s))) \<and>
      TL1_Send N None command (snd (TL1_Close N s)) =
        Some (Done (Inl ErrNotConnected, snd (TL1_Close N s)))) \<and>
   (fst (TL1_Reconnect N (snd (TL1_Close N s))) = None \<longrightarrow>
      \<not> closed (fst (snd (TL1_Reconnect N (snd (TL1_Close N s)))))) \<and>
   (fst (TL1_Reconnect N (snd (TL1_Close N s))) \<noteq> None \<longrightarrow>
      fst (snd (TL1_Reconnect N (snd (TL1_Close N s)))) = fst (snd (TL1_Close N s)))"
proof -
  let ?s1 = "snd (TL1_Close N s)"
  have c: "closed (fst ?s1)" and n: "conn (fst ?s1) = None"
    using Close_closes [of N s] by simp_all
  have r: "(fst (TL1_Reconnect N ?s1) = None \<longrightarrow> \<not> closed (fst (snd (TL1_Reconnect N ?s1)))) \<and>
           (fst (TL1_Reconnect N ?s1) \<noteq> None \<longrightarrow> fst (snd (TL1_Reconnect N ?s1)) = fst ?s1)"
  proof (cases ?s1)
    case (Pair t w)
    with n have "conn t = None" by simp
    from Reconnect_closed [OF this, of N w] show ?thesis
      unfolding Pair by (auto split: prod.splits sum.splits)
  qed
  show ?thesis
    using c n r by (simp add: Close_again Cmd_closed Send_closed runOps_closed)
qed

theorem Close_until_Reconnect_witness:
  "Cmd scriptedNet LogoutCommand (snd (TL1_Close scriptedNet (sampleTransport, quietWorld))) =
     Some (Done (Inl ErrNotConnected, snd (TL1_Close scriptedNet (sampleTransport, quietWorld)))) \<and>
   runOps scriptedNet [OpCmd LogoutCommand, OpIsConnected, OpClose, OpSend None LogoutCommand]
     (snd (TL1_Close scriptedNet (sampleTransport, quietWorld))) =
     Some (snd (TL1_Close scriptedNet (sampleTransport, quietWorld))) \<and>
   \<not> closed (fst (snd (TL1_Reconnect scriptedNet
                       (snd (TL1_Close scriptedNet (sampleTransport, quietWorld))))))"
proof -
  have n: "LogoutCommand \<noteq> []" by (simp add: LogoutCommand_def)
  have r: "fst (TL1_Reconnect scriptedNet
                  (snd (TL1_Close scriptedNet (sampleTransport, quietWorld)))) = None"
    by (simp add: TL1_Reconnect_def TL1_Close_def sampleTransport_def quietWorld_def
          connect_def scriptedNet_def Let_def)
  from Close_until_Reconnect [of scriptedNet "(sampleTransport, quietWorld)"
         "[OpCmd LogoutCommand, OpIsConnected, OpClose, OpSend None LogoutCommand]" LogoutCommand]
       n r
  show ?thesis by blast
qed

text \<open>
  Claim C10.  For the empty command, \<open>Cmd\<close> and \<open>TL1_Send\<close> return an error at once: the
  transport and the world outside are as they were, so no liveness check, no write and no
  read took place; for \<open>TL1_Send\<close> this holds whatever the state of the context.
\<close>

theorem empty_command_rejected:
  "Cmd N [] s = Some (Done (Inl (errors_New ''command cannot be empty''), s)) \<and>
   TL1_Send N ctxErr [] s = Some (Done (Inl (errors_New ''command cannot be empty''), s))"
  by (simp add: Cmd_def TL1_Send_def)

theorem empty_command_rejected_witness:
  "Cmd scriptedNet [] (sampleTransport, quietWorld) =
     Some (Done (Inl (errors_New ''command cannot be empty''), (sampleTransport, quietWorld))) \<and>
   TL1_Send scriptedNet None [] (sampleTransport, quietWorld) =
     Some (Done (Inl (errors_New ''command cannot be empty''), (sampleTransport, quietWorld)))"
  by (rule empty_command_rejected)

section \<open>The session flag and the retry loop\<close>

lemma reconnectAndLogin_connected:
  "connected (snd (reconnectAndLogin T ctx us)) = connected us"
  by (auto simp: reconnectAndLogin_def Login_def sendCommand_def Let_def
        split: prod.splits option.splits sum.splits)

text \<open>
  Claim C4 (the code departs from it).  The claim: in every branch in which
  reconnect-and-login succeeds, \<open>ensureConnection\<close> returns success with the flag set.
  The code: when the flag is clear and the transport reports that it is not connected,
  \<open>ensureConnection\<close> returns success after reconnect-and-login and leaves the flag
  clear; the branch that closes first sets it (\<open>ensureConnection_flag_set\<close>).
\<close>

theorem ensureConnection_flag_not_set:
  "\<not> connected us \<and> IsConnected T (transporter us) = (False, t1) \<and>
   reconnectAndLogin T ctx (us\<lparr>transporter := t1\<rparr>) = (None, us2) \<longrightarrow>
   ensureConnection T ctx us = (None, us2) \<and> \<not> connected us2"
proof (intro impI)
  assume a: "\<not> connected us \<and> IsConnected T (transporter us) = (False, t1) \<and>
   reconnectAndLogin T ctx (us\<lparr>transporter := t1\<rparr>) = (None, us2)"
  then have "connected us2 = connected (us\<lparr>transporter := t1\<rparr>)"
    using reconnectAndLogin_connected [of T ctx "us\<lparr>transporter := t1\<rparr>"] by simp
  with a show "ensureConnection T ctx us = (None, us2) \<and> \<not> connected us2"
    by (simp add: ensureConnection_def)
qed

lemma ensureConnection_flag_set:
  "\<not> connected us \<and> IsConnected T (transporter us) = (True, t1) \<and>
   reconnectAndLogin T ctx (snd (close T (us\<lparr>transporter := t1\<rparr>))) = (None, us3) \<longrightarrow>
   ensureConnection T ctx us = (None, us3\<lparr>connected := True\<rparr>)"
  by (simp add: ensureConnection_def split: prod.splits)

lemma ensureConnection_connected:
  "connected us \<Longrightarrow> ensureConnection T ctx us = (None, us)"
  by (simp add: ensureConnection_def)

theorem ensureConnection_flag_not_set_witness:
  "ensureConnection mockTransporter (Ctx 7)
     (mockClient False \<lparr> replies = [], dials = [], up = False, calls = [] \<rparr>) =
   (None, mockClient False \<lparr> replies = [], dials = [], up = True,
            calls = [CallIsConnected, CallReconnect, CallSend ''LOGIN:::CTAG::UN=admin,PWD=secret;''] \<rparr>)"
proof -
  let ?us = "mockClient False \<lparr> replies = [], dials = [], up = False, calls = [] \<rparr>"
  let ?t1 = "\<lparr> replies = [], dials = [], up = False, calls = [CallIsConnected] \<rparr>"
  let ?us2 = "mockClient False \<lparr> replies = [], dials = [], up = True,
            calls = [CallIsConnected, CallReconnect, CallSend ''LOGIN:::CTAG::UN=admin,PWD=secret;''] \<rparr>"
  have n: "isResponseErr ''M  COMPLD;'' = None" by code_simp
  have h: "\<not> connected ?us \<and> IsConnected mockTransporter (transporter ?us) = (False, ?t1) \<and>
           reconnectAndLogin mockTransporter (Ctx 7) (?us\<lparr>transporter := ?t1\<rparr>) = (None, ?us2)"
    by (simp add: mockClient_def mockTransporter_def reconnectAndLogin_def Login_def
          sendCommand_def LoginCommand_def n)
  from ensureConnection_flag_not_set [of ?us mockTransporter ?t1 "Ctx 7" ?us2] h
  show ?thesis by simp
qed

lemma retryLoop_step:
  assumes "attempt < MaxRetryAttempts"
  shows "retryLoop toLower T ctx operation attempt lastErr us =
     (case attemptOnce toLower T ctx operation us of
        (Finished r, s1) \<Rightarrow> (r, s1)
      | (Retry e, s1) \<Rightarrow> retryLoop toLower T ctx operation (attempt + 1) (Some e) s1)"
  using assms
  by (subst retryLoop.simps)
     (auto simp: attemptOnce_def isIllegalSessionError_def Let_def
        split: prod.splits option.splits)

lemma retryLoop_end:
  "retryLoop toLower T ctx operation 3 (Some e) us = (Some (maxRetriesExceeded e), us)"
  by (subst retryLoop.simps)
     (simp add: MaxRetryAttempts_def maxRetriesExceeded_def Errorf_w_text_def verb_v_def
        ErrMaxRetriesExceeded_def)

lemma executeWithRetry_unrolled:
  "executeWithRetry toLower T ctx operation us =
     (case attemptOnce toLower T ctx operation us of
        (Finished r, s1) \<Rightarrow> (r, s1)
      | (Retry e1, s1) \<Rightarrow>
          (case attemptOnce toLower T ctx operation s1 of
             (Finished r, s2) \<Rightarrow> (r, s2)
           | (Retry e2, s2) \<Rightarrow>
               (case attemptOnce toLower T ctx operation s2 of
                  (Finished r, s3) \<Rightarrow> (r, s3)
                | (Retry e3, s3) \<Rightarrow> (Some (maxRetriesExceeded e3), s3))))"
proof -
  have a: "(0::int) < MaxRetryAttempts" "(1::int) < MaxRetryAttempts" "(2::int) < MaxRetryAttempts"
    by (simp_all add: MaxRetryAttempts_def)
  show ?thesis
    unfolding executeWithRetry_def
    by (simp add: retryLoop_step [OF a(1)] retryLoop_step [OF a(2), simplified]
          retryLoop_step [OF a(3), simplified] retryLoop_end
          split: prod.splits attemptResult.splits)
qed

text \<open>
  Claim C2 as amended: \<open>executeWithRetry\<close> makes at most three attempts.  An attempt
  whose operation fails is followed by another only when the error's text, lower-cased,
  contains \<^verbatim>\<open>illegal session\<close>, the flag cleared first; every other error of the operation
  is returned at once.  An attempt in which the connection cannot be ensured is followed
  by another whatever its error.  When the third attempt asks for another, the call fails
  with \<open>ErrMaxRetriesExceeded\<close>, wrapped, its text extended by the last error's.
\<close>

theorem executeWithRetry_attempts:
  "executeWithRetry toLower T ctx operation us =
     (case attemptOnce toLower T ctx operation us of
        (Finished r, s1) \<Rightarrow> (r, s1)
      | (Retry e1, s1) \<Rightarrow>
          (case attemptOnce toLower T ctx operation s1 of
             (Finished r, s2) \<Rightarrow> (r, s2)
           | (Retry e2, s2) \<Rightarrow>
               (case attemptOnce toLower T ctx operation s2 of
                  (Finished r, s3) \<Rightarrow> (r, s3)
                | (Retry e3, s3) \<Rightarrow> (Some (maxRetriesExceeded e3), s3)))) \<and>
   errors_Is (maxRetriesExceeded e) ErrMaxRetriesExceeded"
  using executeWithRetry_unrolled [of toLower T ctx operation us]
  by (simp add: maxRetriesExceeded_def ErrMaxRetriesExceeded_def)

theorem executeWithRetry_attempts_witness:
  "executeWithRetry asciiToLower mockTransporter (Ctx 7) listOperation
     (mockClient True staleReplies) =
   (None,
    mockClient True
      \<lparr> replies = [], dials = [], up = True,
        calls = [CallSend ''LST-ONU::OLTID=10.0.0.1,PONID=NA-NA-1-2:CTAG::;'',
                 CallIsConnected, CallIsConnected, CallSend LogoutCommand, CallClose,
                 CallReconnect, CallSend (LoginCommand ''admin'' ''secret''),
                 CallSend ''LST-ONU::OLTID=10.0.0.1,PONID=NA-NA-1-2:CTAG::;''] \<rparr>)"
proof -
  let ?us = "mockClient True staleReplies"
  let ?end = "(None :: error option,
    mockClient True
      \<lparr> replies = [], dials = [], up = True,
        calls = [CallSend ''LST-ONU::OLTID=10.0.0.1,PONID=NA-NA-1-2:CTAG::;'',
                 CallIsConnected, CallIsConnected, CallSend LogoutCommand, CallClose,
                 CallReconnect, CallSend (LoginCommand ''admin'' ''secret''),
                 CallSend ''LST-ONU::OLTID=10.0.0.1,PONID=NA-NA-1-2:CTAG::;''] \<rparr>)"
  have e: "(case attemptOnce asciiToLower mockTransporter (Ctx 7) listOperation ?us of
        (Finished r, s1) \<Rightarrow> (r, s1)
      | (Retry e1, s1) \<Rightarrow>
          (case attemptOnce asciiToLower mockTransporter (Ctx 7) listOperation s1 of
             (Finished r, s2) \<Rightarrow> (r, s2)
           | (Retry e2, s2) \<Rightarrow>
               (case attemptOnce asciiToLower mockTransporter (Ctx 7) listOperation s2 of
                  (Finished r, s3) \<Rightarrow> (r, s3)
                | (Retry e3, s3) \<Rightarrow> (Some (maxRetriesExceeded e3), s3)))) = ?end"
    by code_simp
  from executeWithRetry_attempts [of asciiToLower mockTransporter "Ctx 7" listOperation ?us]
  have "executeWithRetry asciiToLower mockTransporter (Ctx 7) listOperation ?us =
     (case attemptOnce asciiToLower mockTransporter (Ctx 7) listOperation ?us of
        (Finished r, s1) \<Rightarrow> (r, s1)
      | (Retry e1, s1) \<Rightarrow>
          (case attemptOnce asciiToLower mockTransporter (Ctx 7) listOperation s1 of
             (Finished r, s2) \<Rightarrow> (r, s2)
           | (Retry e2, s2) \<Rightarrow>
               (case attemptOnce asciiToLower mockTransporter (Ctx 7) listOperation s2 of
                  (Finished r, s3) \<Rightarrow> (r, s3)
                | (Retry e3, s3) \<Rightarrow> (Some (maxRetriesExceeded e3), s3))))"
    by blast
  then show ?thesis using e by (rule trans)
qed

text \<open>
  Claim C2 (amended).  The claim as written fails: an error of the transport met while
  the connection is being ensured is not returned at once.  With a transport whose
  \<open>Reconnect\<close> is refused every time, the loop reconnects three times and fails with
  \<open>ErrMaxRetriesExceeded\<close>; the operation is never run.
\<close>

theorem executeWithRetry_connect_counterexample:
  "executeWithRetry asciiToLower mockTransporter (Ctx 7) noOperation
     (mockClient False
        \<lparr> replies = [], dials = [Some refusedDial, Some refusedDial, Some refusedDial],
          up = False, calls = [] \<rparr>) =
   (Some (maxRetriesExceeded
            (Errorf_w ''failed to establish connection: ''
               (Errorf_w ''reconnect failed: '' refusedDial))),
    mockClient False
        \<lparr> replies = [], dials = [], up = False,
          calls = [CallIsConnected, CallReconnect, CallIsConnected, CallReconnect,
                   CallIsConnected, CallReconnect] \<rparr>)"
  by (simp add: executeWithRetry_def retryLoop.simps MaxRetryAttempts_def mockClient_def
        mockTransporter_def ensureConnection_def reconnectAndLogin_def maxRetriesExceeded_def
        Errorf_w_text_def verb_v_def ErrMaxRetriesExceeded_def errors_New_def Errorf_w_def
        refusedDial_def)

section \<open>The provisioning sequence\<close>






































lemma erase_onto: "\<exists>us'. erase us' = us"
  by (rule exI [of _ "\<lparr> username = username us, password = password us,
          transporter = (transporter us, []), connected = connected us, logger = logger us \<rparr>"])
     (simp add: erase_def)

lemma sample_commands:
  "provisioningCommands sampleConfig =
     [''DEL-ONU::OLTID=OLT1,PONID=NA-NA-1-2:CTAG::ONUIDTYPE=MAC,ONUID=AABBCC;'',
      ''ADD-ONU::OLTID=OLT1,PONID=NA-NA-1-2:CTAG::AUTHTYPE=MAC,ONUID=AABBCC,NAME=SP-07 | 3 - Ana Souza,ONUTYPE=X;'',
      wanCommand sampleConfig ''UPORT=1'', wanCommand sampleConfig ''UPORT=2'',
      wanCommand sampleConfig ''UPORT=3'', wanCommand sampleConfig ''UPORT=4'',
      wanCommand sampleConfig ''SSID=1'', wanCommand sampleConfig ''SSID=5'',
      ''ACT-LANPORT::OLTID=OLT1,PONID=NA-NA-1-2,ONUIDTYPE=MAC,ONUID=AABBCC,ONUPORT=NA-NA-NA-1:CTAG::;'']"
  by code_simp

lemma sample_wan_command:
  "wanCommand sampleConfig ''UPORT=3'' =
     ''SET-WANSERVICE::OLTID=OLT1,PONID=NA-NA-1-2,ONUIDTYPE=MAC,ONUID=AABBCC:CTAG::STATUS=1,MODE=3,CONNTYPE=2,VLAN=100,COS=0,QOS=2,NAT=1,IPMODE=3,IPSTACKMODE=1,IP6SRCTYPE=0,PPPOEPROXY=2,PPPOEUSER=u,PPPOEPASSWD=p,PPPOENAME=u,PPPOEMODE=1,UPORT=3;''"
  by code_simp






end
